theory Spec2Isabelle
  imports Complex_Main "HOL-Library.Word"
begin

section \<open>JavaScript values\<close>

text \<open>
  The values that flow through \<^verbatim>\<open>backend/server.js\<close>: \<^verbatim>\<open>undefined\<close>, \<^verbatim>\<open>null\<close>,
  strings and (finite) numbers. \<open>truthy\<close> is JavaScript's ToBoolean on them, and
  \<open>js_or\<close> is the operator \<^verbatim>\<open>||\<close>: the left operand when it is truthy, else the right one.
\<close>

datatype jsval = Undefined | Null | Str string | Num rat

fun truthy :: "jsval \<Rightarrow> bool" where
  "truthy Undefined = False"
| "truthy Null = False"
| "truthy (Str s) = (s \<noteq> [])"
| "truthy (Num r) = (r \<noteq> 0)"

definition js_or :: "jsval \<Rightarrow> jsval \<Rightarrow> jsval" where
  "js_or a b = (if truthy a then a else b)"

text \<open>A property that may be missing reads as \<^verbatim>\<open>undefined\<close>.\<close>

definition of_string :: "string option \<Rightarrow> jsval" where
  "of_string v = (case v of None \<Rightarrow> Undefined | Some s \<Rightarrow> Str s)"

definition of_number :: "rat option \<Rightarrow> jsval" where
  "of_number v = (case v of None \<Rightarrow> Undefined | Some r \<Rightarrow> Num r)"

text \<open>Thrown values; \<open>message\<close> is \<^verbatim>\<open>err.message\<close>.\<close>

datatype js_error = Error string | TypeError string

fun message :: "js_error \<Rightarrow> string" where
  "message (Error m) = m"
| "message (TypeError m) = m"

text \<open>JSON bodies of responses, and a response: \<^verbatim>\<open>res.json(b)\<close> answers with status 200,
  \<^verbatim>\<open>res.status(n).json(b)\<close> with status \<open>n\<close>.\<close>

datatype json =
    JNull
  | JBool bool
  | JNumber rat
  | JString string
  | JArray "json list"
  | JObject "(string \<times> json) list"

record response =
  status :: nat
  body :: json

definition json_of :: "jsval \<Rightarrow> json" where
  "json_of v = (case v of Undefined \<Rightarrow> JNull | Null \<Rightarrow> JNull | Str s \<Rightarrow> JString s | Num r \<Rightarrow> JNumber r)"

text \<open>The keys of a JSON value, at every depth.\<close>

primrec json_keys :: "json \<Rightarrow> string list" where
  "json_keys JNull = []"
| "json_keys (JBool b) = []"
| "json_keys (JNumber r) = []"
| "json_keys (JString s) = []"
| "json_keys (JArray vs) = concat (map json_keys vs)"
| "json_keys (JObject kvs) = concat (map (\<lambda>kv. fst kv # snd kv) (map (map_prod id json_keys) kvs))"

section \<open>Strings and paths\<close>

text \<open>
  A template literal \<^verbatim>\<open>${Date.now()}\<close> prints the number in decimal. \<open>dec\<close> is that
  conversion for the non-negative integers \<^verbatim>\<open>Date.now()\<close> returns.
\<close>

definition digit :: "nat \<Rightarrow> char" where
  "digit d = ''0123456789'' ! d"

fun dec :: "nat \<Rightarrow> string" where
  "dec n = (if n < 10 then [digit n] else dec (n div 10) @ [digit (n mod 10)])"

declare dec.simps [simp del]

text \<open>
  Node's \<^verbatim>\<open>path\<close> module on POSIX, as far as the server uses it.
  \<open>path_basename\<close> is the last component of a path, trailing slashes dropped.
  \<open>path_parse_name\<close> is \<^verbatim>\<open>path.parse(p).name\<close>: the last component up to its last dot;
  a component without a dot, one whose only dot comes first, and \<^verbatim>\<open>..\<close> have no extension.
  \<open>path_join\<close> and \<open>path_resolve\<close> are \<^verbatim>\<open>path.join\<close> and \<^verbatim>\<open>path.resolve\<close> on the arguments
  the server passes: a normalised directory and a relative path without \<^verbatim>\<open>.\<close> or \<^verbatim>\<open>..\<close>
  segments, where both put a slash between the two.
\<close>

definition path_basename :: "string \<Rightarrow> string" where
  "path_basename p =
     rev (takeWhile (\<lambda>c. c \<noteq> CHR ''/'') (dropWhile (\<lambda>c. c = CHR ''/'') (rev p)))"

definition path_parse_name :: "string \<Rightarrow> string" where
  "path_parse_name p =
     (let base = path_basename p;
          stem = rev (drop 1 (dropWhile (\<lambda>c. c \<noteq> CHR ''.'') (rev base)))
      in if CHR ''.'' \<notin> set base \<or> stem = [] \<or> base = ''..'' then base else stem)"

definition path_join :: "string \<Rightarrow> string \<Rightarrow> string" where
  "path_join a b = a @ ''/'' @ b"

definition path_resolve :: "string \<Rightarrow> string \<Rightarrow> string" where
  "path_resolve cwd p = (if take 1 p = ''/'' then p else cwd @ ''/'' @ p)"

section \<open>Data model\<close>

type_synonym bytes = "8 word list"

text \<open>What \<^verbatim>\<open>music-metadata\<close> returns from \<^verbatim>\<open>parseFile\<close>: the common tags
  (\<^verbatim>\<open>metadata.common\<close>) and the format information (\<^verbatim>\<open>metadata.format\<close>), every one of
  them optional.\<close>

record picture =
  picture_format :: string
  picture_data :: bytes

record metadata =
  common_title :: "string option"
  common_artist :: "string option"
  common_album :: "string option"
  common_genre :: "string list option"
  common_picture :: "picture list option"
  format_bitrate :: "rat option"
  format_duration :: "rat option"

text \<open>
  Modelled from the spec: the module \<^verbatim>\<open>./db\<close> and the schema of its database are not
  among the sources. The tables are the relations User, Song and PlayHistory record of
  the specification's data model, with the columns the statements of \<^verbatim>\<open>server.js\<close> name:
  those of a song are the columns of the \<^verbatim>\<open>INSERT INTO songs\<close> statement, in its order,
  after the key, which the database assigns.
\<close>

record users_row =
  users_id :: int
  users_email :: string
  users_password :: string

record songs_row =
  songs_id :: int
  songs_title :: jsval
  songs_artist :: jsval
  songs_album :: jsval
  songs_mood :: jsval
  songs_genre :: jsval
  songs_language :: jsval
  songs_filepath :: jsval
  songs_user_id :: jsval
  songs_bitrate :: jsval
  songs_duration :: jsval
  songs_thumbnail :: jsval

record history_row =
  history_user_id :: int
  history_song_id :: int
  history_played_at :: int

text \<open>
  The state of the server between requests: the files and directories on disk (keyed by
  absolute path), the tables, the sequence that numbers new songs, and the routes
  registered on \<^verbatim>\<open>app\<close>, in registration order.
\<close>

record server_state =
  files :: "string \<rightharpoonup> bytes"
  dirs :: "string set"
  users :: "users_row list"
  songs :: "songs_row list"
  songs_seq :: int
  history :: "history_row list"
  routes :: "(string \<times> string) list"

section \<open>Song upload\<close>

subsection \<open>The request and its environment\<close>

text \<open>
  An upload is a multipart request: at most one file part under the field \<^verbatim>\<open>song\<close>,
  with the file name the client gave and the bytes, and text fields. Its text fields are
  strings; \<open>text_fields req k = None\<close> is a field the client did not send. A request that
  multer itself refuses (a file under another field, a disk it cannot write) never reaches
  the handler and is not among these.
\<close>

record file_part =
  part_filename :: string
  part_data :: bytes

record upload_request =
  song_part :: "file_part option"
  text_fields :: "string \<rightharpoonup> string"

text \<open>What the middleware \<^verbatim>\<open>upload.single("song")\<close> hands to the handler: \<^verbatim>\<open>req.file\<close>
  (undefined when there was no file part) and \<^verbatim>\<open>req.body\<close>.\<close>

record multer_file =
  originalname :: string
  path :: string

record handler_request =
  req_file :: "multer_file option"
  req_body :: "string \<rightharpoonup> string"

text \<open>
  Everything outside the server that one upload depends on. The server is started from
  its own directory, so the working directory and \<^verbatim>\<open>__dirname\<close> are the same directory
  \<open>app_dir\<close>. \<^verbatim>\<open>Date.now()\<close> is read twice, once by the \<^verbatim>\<open>filename\<close> callback of the disk
  storage and once for the cover. \<open>mm_parse\<close> is the metadata extractor on the bytes of
  a file. The remaining fields say whether a call that can throw does throw here:
  the dynamic import, \<^verbatim>\<open>fs.mkdirSync\<close>, \<^verbatim>\<open>fs.writeFileSync\<close> and the insert
  (a rejected insert leaves the table as it was).
\<close>

record upload_env =
  app_dir :: string
  now_filename :: nat
  now_cover :: nat
  import_error :: "js_error option"
  mm_parse :: "bytes \<Rightarrow> js_error + metadata"
  mkdir_error :: "js_error option"
  write_error :: "js_error option"
  insert_error :: "js_error option"

subsection \<open>Intake: the disk storage of multer\<close>

text \<open>
  \<^verbatim>\<open>multer.diskStorage({destination: "./uploads/songs", filename: ...})\<close>. The file name
  on disk is \<^verbatim>\<open>`${Date.now()}-${file.originalname}`\<close>; multer writes the bytes to
  \<^verbatim>\<open>path.join(destination, filename)\<close>, which drops the leading \<^verbatim>\<open>./\<close>, relative to the
  working directory, and reports that path as \<^verbatim>\<open>file.path\<close>. The handler runs after the
  write. Without a file part nothing is written and \<^verbatim>\<open>req.file\<close> stays undefined.
\<close>

definition destination :: string where
  "destination = ''./uploads/songs''"

definition storage_filename :: "nat \<Rightarrow> string \<Rightarrow> string" where
  "storage_filename now name = dec now @ ''-'' @ name"

definition storage_path :: "nat \<Rightarrow> string \<Rightarrow> string" where
  "storage_path now name = drop 2 (path_join destination (storage_filename now name))"

definition upload_single :: "upload_env \<Rightarrow> server_state \<Rightarrow> upload_request \<Rightarrow> handler_request \<times> server_state" where
  "upload_single env st req =
     (case song_part req of
        None \<Rightarrow> (\<lparr>req_file = None, req_body = text_fields req\<rparr>, st)
      | Some part \<Rightarrow>
          let file = \<lparr>originalname = part_filename part,
                      path = storage_path (now_filename env) (part_filename part)\<rparr>
          in (\<lparr>req_file = Some file, req_body = text_fields req\<rparr>,
              st\<lparr>files := (files st)(path_resolve (app_dir env) (path file) \<mapsto> part_data part)\<rparr>))"

subsection \<open>The handler of POST /api/upload/song\<close>

text \<open>\<^verbatim>\<open>mm.parseFile(filePath)\<close>: the extractor on the bytes stored at the path; a path
  with no file is an error.\<close>

definition parseFile :: "upload_env \<Rightarrow> server_state \<Rightarrow> string \<Rightarrow> js_error + metadata" where
  "parseFile env st filePath =
     (case files st filePath of
        None \<Rightarrow> Inl (Error (''ENOENT: no such file or directory, open '' @ filePath))
      | Some data \<Rightarrow> mm_parse env data)"

text \<open>\<^verbatim>\<open>metadata.common.genre?.[0]\<close>: undefined when there is no genre list, and when the
  list is empty.\<close>

definition genre_0 :: "metadata \<Rightarrow> jsval" where
  "genre_0 metadata =
     (case common_genre metadata of
        None \<Rightarrow> Undefined
      | Some genre \<Rightarrow> if 0 < length genre then Str (genre ! 0) else Undefined)"

text \<open>The three calls into \<^verbatim>\<open>fs\<close>. \<^verbatim>\<open>mkdirSync\<close> and \<^verbatim>\<open>writeFileSync\<close> throw when the
  environment says so and change the disk otherwise.\<close>

definition existsSync :: "server_state \<Rightarrow> string \<Rightarrow> bool" where
  "existsSync st p = (p \<in> dirs st \<or> files st p \<noteq> None)"

definition mkdirSync :: "upload_env \<Rightarrow> server_state \<Rightarrow> string \<Rightarrow> js_error + server_state" where
  "mkdirSync env st p =
     (case mkdir_error env of
        Some err \<Rightarrow> Inl err
      | None \<Rightarrow> Inr (st\<lparr>dirs := insert p (dirs st)\<rparr>))"

definition writeFileSync :: "upload_env \<Rightarrow> server_state \<Rightarrow> string \<Rightarrow> bytes \<Rightarrow> js_error + server_state" where
  "writeFileSync env st p data =
     (case write_error env of
        Some err \<Rightarrow> Inl err
      | None \<Rightarrow> Inr (st\<lparr>files := (files st)(p \<mapsto> data)\<rparr>))"

text \<open>
  Lines 69 to 77, the cover. The result is the exception thrown, or the value of
  \<^verbatim>\<open>thumbnailPath\<close> after the block, and the state the block leaves.
\<close>

definition save_thumbnail :: "upload_env \<Rightarrow> server_state \<Rightarrow> metadata \<Rightarrow> string \<Rightarrow> (js_error + jsval) \<times> server_state" where
  "save_thumbnail env st metadata filename =
     (case common_picture metadata of
        None \<Rightarrow> (Inr Null, st)
      | Some pictures \<Rightarrow>
          if 0 < length pictures then
            let cover = pictures ! 0;
                coverFileName = dec (now_cover env) @ ''-'' @ filename @ ''-cover.jpg'';
                coverDir = path_join (path_join (app_dir env) ''uploads'') ''covers'';
                thumbnailPath = ''uploads/covers/'' @ coverFileName
            in (case (if \<not> existsSync st coverDir then mkdirSync env st coverDir else Inr st) of
                  Inl err \<Rightarrow> (Inl err, st)
                | Inr st1 \<Rightarrow>
                    (case writeFileSync env st1 (path_join (app_dir env) thumbnailPath) (picture_data cover) of
                       Inl err \<Rightarrow> (Inl err, st1)
                     | Inr st2 \<Rightarrow> (Inr (Str thumbnailPath), st2)))
          else (Inr Null, st))"

text \<open>
  The body of the \<^verbatim>\<open>try\<close> block, lines 51 to 99. The result is the exception that left
  the block, if any, and the state reached.
\<close>

definition upload_try :: "upload_env \<Rightarrow> server_state \<Rightarrow> handler_request \<Rightarrow> js_error option \<times> server_state" where
  "upload_try env st req =
     (case req_file req of
        None \<Rightarrow> (Some (TypeError ''Cannot read properties of undefined (reading 'path')''), st)
      | Some file \<Rightarrow>
          let filePath = path_resolve (app_dir env) (path file);
              filename = path_parse_name (originalname file);
              userId = of_string (req_body req ''userId'')
          in (case import_error env of
                Some err \<Rightarrow> (Some err, st)
              | None \<Rightarrow>
           (case parseFile env st filePath of
                Inl err \<Rightarrow> (Some err, st)
              | Inr metadata \<Rightarrow>
                  let title = js_or (js_or (of_string (common_title metadata)) (of_string (req_body req ''title''))) (Str filename);
                      artist = js_or (js_or (of_string (common_artist metadata)) (of_string (req_body req ''artist''))) (Str ''Unknown Artist'');
                      album = js_or (js_or (of_string (common_album metadata)) (of_string (req_body req ''album''))) (Str ''Unknown Album'');
                      genre = js_or (js_or (genre_0 metadata) (of_string (req_body req ''genre''))) (Str ''Unknown'');
                      language = of_string (req_body req ''language'');
                      bitrate = js_or (of_number (format_bitrate metadata)) (Num 0);
                      duration = js_or (of_number (format_duration metadata)) (Num 0)
                  in (case save_thumbnail env st metadata filename of
                        (Inl err, st1) \<Rightarrow> (Some err, st1)
                      | (Inr thumbnailPath, st1) \<Rightarrow>
                          (case insert_error env of
                             Some err \<Rightarrow> (Some err, st1)
                           | None \<Rightarrow>
                               (None,
                                st1\<lparr>songs := songs st1 @
                                      [\<lparr>songs_id = songs_seq st1,
                                        songs_title = title,
                                        songs_artist = artist,
                                        songs_album = album,
                                        songs_mood = js_or (of_string (req_body req ''mood'')) (Str []),
                                        songs_genre = genre,
                                        songs_language = language,
                                        songs_filepath = Str (path file),
                                        songs_user_id = userId,
                                        songs_bitrate = bitrate,
                                        songs_duration = duration,
                                        songs_thumbnail = thumbnailPath\<rparr>],
                                    songs_seq := songs_seq st1 + 1\<rparr>))))))"

text \<open>
  The handler: the \<^verbatim>\<open>try\<close> block, the \<^verbatim>\<open>catch\<close> that answers 500, and then, still inside
  the handler's body, the three calls \<^verbatim>\<open>app.get\<close>, \<^verbatim>\<open>app.post\<close>, \<^verbatim>\<open>app.get\<close> of lines 104
  to 145.
\<close>

definition nested_routes :: "(string \<times> string) list" where
  "nested_routes =
     [(''GET'', ''/api/playlists''),
      (''POST'', ''/api/song/play''),
      (''GET'', ''/api/user/recommendations'')]"

definition upload_handler :: "upload_env \<Rightarrow> server_state \<Rightarrow> handler_request \<Rightarrow> response \<times> server_state" where
  "upload_handler env st req =
     (let (thrown, st1) = upload_try env st req;
          res = (case thrown of
                   None \<Rightarrow>
                     \<lparr>status = 200,
                      body = JObject [(''success'', JBool True),
                                      (''message'', JString ''Song uploaded with metadata!'')]\<rparr>
                 | Some err \<Rightarrow>
                     \<lparr>status = 500,
                      body = JObject [(''error'', JString ''Upload failed''),
                                      (''details'', JString (message err))]\<rparr>)
      in (res, st1\<lparr>routes := routes st1 @ nested_routes\<rparr>))"

text \<open>The route: the middleware, then the handler.\<close>

definition upload_song :: "upload_env \<Rightarrow> server_state \<Rightarrow> upload_request \<Rightarrow> response \<times> server_state" where
  "upload_song env st req =
     (let (req1, st1) = upload_single env st req in upload_handler env st1 req1)"

text \<open>
  The state once the top level of \<^verbatim>\<open>server.js\<close> has run on an empty database: the disk
  storage has created its destination directory, and the routes registered are signup,
  login and upload.
\<close>

definition init_state :: "string \<Rightarrow> server_state" where
  "init_state dir =
     \<lparr>files = Map.empty,
      dirs = {path_resolve dir (drop 2 destination)},
      users = [],
      songs = [],
      songs_seq = 1,
      history = [],
      routes = [(''POST'', ''/api/auth/signup''),
                (''POST'', ''/api/auth/login''),
                (''POST'', ''/api/upload/song'')]\<rparr>"

text \<open>A run of uploads, one after the other, each with its own environment.\<close>

fun uploads :: "(upload_env \<times> upload_request) list \<Rightarrow> server_state \<Rightarrow> server_state" where
  "uploads [] st = st"
| "uploads ((env, req) # rest) st = uploads rest (snd (upload_song env st req))"

section \<open>Login\<close>

text \<open>
  The JSON body of a login request, with \<open>None\<close> for a property that is missing, and what
  the handler depends on outside the server: whether the query is rejected, and the
  verification of a password against a hash. An exception leaves the handler uncaught
  (it has no \<^verbatim>\<open>try\<close>), so the result is the exception or the response.
\<close>

record login_request =
  body_email :: "string option"
  body_password :: "string option"

record login_env =
  select_error :: "js_error option"
  bcrypt_compare :: "string \<Rightarrow> string \<Rightarrow> bool"

definition login :: "login_env \<Rightarrow> server_state \<Rightarrow> login_request \<Rightarrow> js_error + response" where
  "login env st req =
     (case select_error env of
        Some err \<Rightarrow> Inl err
      | None \<Rightarrow>
          let rows = filter (\<lambda>u. body_email req = Some (users_email u)) (users st)
          in if length rows = 0
             then Inr \<lparr>status = 401, body = JObject [(''error'', JString ''User not found'')]\<rparr>
             else
               let user = rows ! 0
               in (case body_password req of
                     None \<Rightarrow> Inl (Error ''data and hash arguments required'')
                   | Some password \<Rightarrow>
                       let valid = bcrypt_compare env password (users_password user)
                       in if \<not> valid
                          then Inr \<lparr>status = 401, body = JObject [(''error'', JString ''Invalid password'')]\<rparr>
                          else Inr \<lparr>status = 200,
                                    body = JObject [(''user'',
                                             JObject [(''id'', JNumber (of_int (users_id user))),
                                                      (''email'', JString (users_email user))])]\<rparr>))"

section \<open>Recommendations\<close>

text \<open>
  The first query of the handler: the plays in \<^verbatim>\<open>history\<close> joined to their songs, those of
  the user, latest first, at most three (\<^verbatim>\<open>ORDER BY h.played_at DESC LIMIT 3\<close>). Plays
  of one instant come in the order of the table. The user id is the one of the query
  string, as the database reads it for the column; one that is missing is sent as NULL,
  which equals no row's.
\<close>

definition recent_plays :: "server_state \<Rightarrow> int option \<Rightarrow> (history_row \<times> songs_row) list" where
  "recent_plays st userId =
     (let joined = concat (map (\<lambda>h. map (\<lambda>s. (h, s))
                                      (filter (\<lambda>s. songs_id s = history_song_id h) (songs st)))
                               (history st));
          selected = filter (\<lambda>hs. userId = Some (history_user_id (fst hs))) joined;
          ordered = sort_key (\<lambda>hs. - history_played_at (fst hs)) selected
      in take 3 ordered)"

text \<open>\<^verbatim>\<open>[...new Set(xs)]\<close>: a set keeps its elements in insertion order, and adding an
  element it has changes nothing.\<close>

fun set_add_all :: "'a list \<Rightarrow> 'a list \<Rightarrow> 'a list" where
  "set_add_all seen [] = seen"
| "set_add_all seen (x # xs) = set_add_all (if x \<in> set seen then seen else seen @ [x]) xs"

definition spread_new_Set :: "'a list \<Rightarrow> 'a list" where
  "spread_new_Set xs = set_add_all [] xs"

text \<open>The array \<^verbatim>\<open>moods\<close> of line 134, the parameter of the second query.\<close>

definition recommendation_moods :: "server_state \<Rightarrow> int option \<Rightarrow> jsval list" where
  "recommendation_moods st userId =
     spread_new_Set (map (\<lambda>row. songs_mood (snd row)) (recent_plays st userId))"

definition songs_json :: "songs_row \<Rightarrow> json" where
  "songs_json s =
     JObject [(''id'', JNumber (of_int (songs_id s))),
              (''title'', json_of (songs_title s)),
              (''artist'', json_of (songs_artist s)),
              (''album'', json_of (songs_album s)),
              (''mood'', json_of (songs_mood s)),
              (''genre'', json_of (songs_genre s)),
              (''language'', json_of (songs_language s)),
              (''filepath'', json_of (songs_filepath s)),
              (''user_id'', json_of (songs_user_id s)),
              (''bitrate'', json_of (songs_bitrate s)),
              (''duration'', json_of (songs_duration s)),
              (''thumbnail'', json_of (songs_thumbnail s))]"

text \<open>
  The handler. The second query keeps the songs whose mood is one of \<^verbatim>\<open>moods\<close> (a NULL mood
  is none of them), in the random order the database picks, at most ten.
\<close>

record recommendations_env =
  recent_error :: "js_error option"
  result_error :: "js_error option"
  random_order :: "songs_row list \<Rightarrow> songs_row list"

definition mood_matches :: "jsval list \<Rightarrow> songs_row \<Rightarrow> bool" where
  "mood_matches moods s = (case songs_mood s of Str m \<Rightarrow> Str m \<in> set moods | _ \<Rightarrow> False)"

definition recommendations :: "recommendations_env \<Rightarrow> server_state \<Rightarrow> int option \<Rightarrow> js_error + response" where
  "recommendations env st userId =
     (case recent_error env of
        Some err \<Rightarrow> Inl err
      | None \<Rightarrow>
          let moods = recommendation_moods st userId
          in (case result_error env of
                Some err \<Rightarrow> Inl err
              | None \<Rightarrow>
                  let rows = take 10 (random_order env (filter (mood_matches moods) (songs st)))
                  in Inr \<lparr>status = 200, body = JArray (map songs_json rows)\<rparr>))"

section \<open>The properties, in the words of the specification\<close>

text \<open>
  Field resolution: the embedded tag value if non-empty, else the client-supplied field
  if non-empty, else a fixed default.
\<close>

definition three_tier :: "string option \<Rightarrow> string option \<Rightarrow> string \<Rightarrow> string" where
  "three_tier tag field dflt =
     (case tag of
        Some (c # cs) \<Rightarrow> c # cs
      | _ \<Rightarrow> (case field of Some (c # cs) \<Rightarrow> c # cs | _ \<Rightarrow> dflt))"

text \<open>The embedded genre is the first entry of the genre list, the embedded cover the first
  of the pictures.\<close>

definition embedded_genre :: "metadata \<Rightarrow> string option" where
  "embedded_genre md = (case common_genre md of Some (g # gs) \<Rightarrow> Some g | _ \<Rightarrow> None)"

definition first_cover :: "metadata \<Rightarrow> picture option" where
  "first_cover md = (case common_picture md of Some (p # ps) \<Rightarrow> Some p | _ \<Rightarrow> None)"

text \<open>
  Where the upload of a file named \<open>name\<close> is stored, the relative path of its cover, the
  directory of the covers, and the state once that directory exists.
\<close>

definition song_file :: "upload_env \<Rightarrow> string \<Rightarrow> string" where
  "song_file env name = app_dir env @ ''/uploads/songs/'' @ dec (now_filename env) @ ''-'' @ name"

definition cover_name :: "upload_env \<Rightarrow> string \<Rightarrow> string" where
  "cover_name env name =
     ''uploads/covers/'' @ dec (now_cover env) @ ''-'' @ path_parse_name name @ ''-cover.jpg''"

definition cover_dir :: "upload_env \<Rightarrow> string" where
  "cover_dir env = app_dir env @ ''/uploads/covers''"

definition with_cover_dir :: "upload_env \<Rightarrow> server_state \<Rightarrow> server_state" where
  "with_cover_dir env st =
     (if existsSync st (cover_dir env) then st else st\<lparr>dirs := insert (cover_dir env) (dirs st)\<rparr>)"

text \<open>The structured failure of the upload route.\<close>

definition upload_failure :: "js_error \<Rightarrow> response" where
  "upload_failure err =
     \<lparr>status = 500,
      body = JObject [(''error'', JString ''Upload failed''), (''details'', JString (message err))]\<rparr>"

text \<open>An environment whose extractor reports the genre list \<open>g\<close> whatever the file holds,
  and is the given one otherwise.\<close>

definition with_genre :: "string list option \<Rightarrow> upload_env \<Rightarrow> upload_env" where
  "with_genre g env =
     env\<lparr>mm_parse := (\<lambda>data. case mm_parse env data of
                                 Inl err \<Rightarrow> Inl err
                               | Inr md \<Rightarrow> Inr (md\<lparr>common_genre := g\<rparr>))\<rparr>"

text \<open>
  An upload of the file part \<open>part\<close> is caught with \<open>err\<close>: the response is the structured
  failure carrying the message of \<open>err\<close>, no row is added to the songs, and the bytes stored
  at intake are still on disk.
\<close>

definition upload_caught :: "upload_env \<Rightarrow> server_state \<Rightarrow> upload_request \<Rightarrow> file_part \<Rightarrow> js_error \<Rightarrow> bool" where
  "upload_caught env st req part err =
     (fst (upload_song env st req) = upload_failure err
      \<and> songs (snd (upload_song env st req)) = songs st
      \<and> files (snd (upload_song env st req)) (song_file env (part_filename part)) = Some (part_data part))"

text \<open>The stored user an email matches, and the plays of a user with the songs played.\<close>

definition find_user :: "server_state \<Rightarrow> string option \<Rightarrow> users_row option" where
  "find_user st email = find (\<lambda>u. email = Some (users_email u)) (users st)"

definition user_plays :: "server_state \<Rightarrow> int option \<Rightarrow> (history_row \<times> songs_row) list" where
  "user_plays st userId =
     [(h, s). h \<leftarrow> history st, userId = Some (history_user_id h),
              s \<leftarrow> songs st, songs_id s = history_song_id h]"

section \<open>Examples\<close>

text \<open>
  The scenario of the specification: a file named \<^verbatim>\<open>track.mp3\<close> without embedded tags,
  no descriptive client fields, user 7, on a freshly started server.
\<close>

definition no_tags :: metadata where
  "no_tags =
     \<lparr>common_title = None, common_artist = None, common_album = None, common_genre = None,
      common_picture = None, format_bitrate = None, format_duration = None\<rparr>"

definition scenario_env :: upload_env where
  "scenario_env =
     \<lparr>app_dir = ''/srv/audix/backend'',
      now_filename = 1700000000000,
      now_cover = 1700000000001,
      import_error = None,
      mm_parse = (\<lambda>data. Inr no_tags),
      mkdir_error = None,
      write_error = None,
      insert_error = None\<rparr>"

definition scenario_part :: file_part where
  "scenario_part = \<lparr>part_filename = ''track.mp3'', part_data = [73, 68, 51]\<rparr>"

definition scenario_request :: upload_request where
  "scenario_request = \<lparr>song_part = Some scenario_part, text_fields = [''userId'' \<mapsto> ''7'']\<rparr>"

definition scenario_state :: server_state where
  "scenario_state = init_state ''/srv/audix/backend''"

text \<open>
  A file with embedded tags, two covers among them, uploaded with client fields; a request
  without a file part; and a second upload of \<^verbatim>\<open>track.mp3\<close> with other bytes.
\<close>

definition tagged :: metadata where
  "tagged =
     \<lparr>common_title = Some ''Blue in Green'',
      common_artist = Some [],
      common_album = None,
      common_genre = Some [''Jazz'', ''Modal''],
      common_picture = Some [\<lparr>picture_format = ''image/jpeg'', picture_data = [255, 216, 255]\<rparr>,
                             \<lparr>picture_format = ''image/png'', picture_data = [137, 80, 78, 71]\<rparr>],
      format_bitrate = Some 320000,
      format_duration = Some (3372 / 10)\<rparr>"

definition tagged_env :: upload_env where
  "tagged_env = scenario_env\<lparr>mm_parse := (\<lambda>data. Inr tagged)\<rparr>"

definition tagged_request :: upload_request where
  "tagged_request =
     \<lparr>song_part = Some scenario_part,
      text_fields = [''title'' \<mapsto> ''My title'', ''artist'' \<mapsto> ''Miles Davis'', ''album'' \<mapsto> [],
                     ''userId'' \<mapsto> ''7'']\<rparr>"

definition no_file_request :: upload_request where
  "no_file_request = \<lparr>song_part = None, text_fields = [''title'' \<mapsto> ''My title'']\<rparr>"

definition second_request :: upload_request where
  "second_request =
     \<lparr>song_part = Some \<lparr>part_filename = ''track.mp3'', part_data = [79, 103, 103, 83]\<rparr>,
      text_fields = [''userId'' \<mapsto> ''8'']\<rparr>"

text \<open>
  A database with one user, three songs and five plays, four of them by user 7; and a
  login environment in which the hash of a password is the password in brackets.
\<close>

definition example_song :: "int \<Rightarrow> string \<Rightarrow> songs_row" where
  "example_song i m =
     \<lparr>songs_id = i, songs_title = Str ''track'', songs_artist = Str ''Unknown Artist'',
      songs_album = Str ''Unknown Album'', songs_mood = Str m, songs_genre = Str ''Unknown'',
      songs_language = Undefined, songs_filepath = Str ''uploads/songs/1700000000000-track.mp3'',
      songs_user_id = Str ''7'', songs_bitrate = Num 0, songs_duration = Num 0,
      songs_thumbnail = Null\<rparr>"

definition played_state :: server_state where
  "played_state =
     scenario_state
       \<lparr>users := [\<lparr>users_id = 7, users_email = ''a@b.com'', users_password = ''hash(pw123)''\<rparr>],
        songs := [example_song 1 ''happy'', example_song 2 ''sad'', example_song 3 ''calm''],
        songs_seq := 4,
        history := [\<lparr>history_user_id = 7, history_song_id = 3, history_played_at = 10\<rparr>,
                    \<lparr>history_user_id = 7, history_song_id = 1, history_played_at = 20\<rparr>,
                    \<lparr>history_user_id = 8, history_song_id = 3, history_played_at = 25\<rparr>,
                    \<lparr>history_user_id = 7, history_song_id = 2, history_played_at = 30\<rparr>,
                    \<lparr>history_user_id = 7, history_song_id = 1, history_played_at = 40\<rparr>]\<rparr>"

definition example_recommendations_env :: recommendations_env where
  "example_recommendations_env = \<lparr>recent_error = None, result_error = None, random_order = rev\<rparr>"

definition example_login_env :: login_env where
  "example_login_env =
     \<lparr>select_error = None, bcrypt_compare = (\<lambda>password hash. hash = ''hash('' @ password @ '')'')\<rparr>"

section \<open>Lemmas\<close>

text \<open>The definitions of the upload route and of the examples, for evaluating the route on
  a given request.\<close>

lemmas upload_defs =
  upload_song_def upload_single_def upload_handler_def upload_try_def
  storage_path_def storage_filename_def destination_def path_join_def path_resolve_def
  parseFile_def save_thumbnail_def mkdirSync_def writeFileSync_def existsSync_def
  js_or_def of_string_def of_number_def genre_0_def
  path_parse_name_def path_basename_def Let_def

lemmas example_defs =
  scenario_env_def scenario_state_def scenario_request_def scenario_part_def init_state_def
  no_tags_def

subsection \<open>The upload pipeline, step by step\<close>

lemma storage_path_eq: "storage_path now name = ''uploads/songs/'' @ dec now @ ''-'' @ name"
  by (simp add: storage_path_def storage_filename_def destination_def path_join_def)

lemma resolve_storage_path:
  "path_resolve (app_dir env) (storage_path (now_filename env) name) = song_file env name"
  by (simp add: storage_path_eq path_resolve_def song_file_def)

lemma upload_single_file:
  "song_part req = Some part \<Longrightarrow>
   upload_single env st req =
     (\<lparr>req_file = Some \<lparr>originalname = part_filename part,
                          path = storage_path (now_filename env) (part_filename part)\<rparr>,
       req_body = text_fields req\<rparr>,
      st\<lparr>files := (files st)(song_file env (part_filename part) \<mapsto> part_data part)\<rparr>)"
  by (simp add: upload_single_def resolve_storage_path Let_def)

lemma upload_single_no_file:
  "song_part req = None \<Longrightarrow>
   upload_single env st req = (\<lparr>req_file = None, req_body = text_fields req\<rparr>, st)"
  by (simp add: upload_single_def)

lemma three_tier_or: "js_or (js_or (of_string t) (of_string f)) (Str d) = Str (three_tier t f d)"
  by (auto simp: js_or_def of_string_def three_tier_def split: option.splits list.splits)

lemma genre_0_embedded: "genre_0 md = of_string (embedded_genre md)"
  by (auto simp: genre_0_def embedded_genre_def of_string_def split: option.splits list.splits)

lemma save_thumbnail_no_cover:
  "first_cover md = None \<Longrightarrow> save_thumbnail env st md fn = (Inr Null, st)"
  by (auto simp: save_thumbnail_def first_cover_def split: option.splits list.splits)

lemma save_thumbnail_mkdir_throws:
  "first_cover md = Some c \<Longrightarrow> \<not> existsSync st (cover_dir env) \<Longrightarrow> mkdir_error env = Some e \<Longrightarrow>
   save_thumbnail env st md fn = (Inl e, st)"
  by (auto simp: save_thumbnail_def first_cover_def path_join_def cover_dir_def mkdirSync_def Let_def
      split: option.splits list.splits)

lemma save_thumbnail_write_throws:
  "first_cover md = Some c \<Longrightarrow> existsSync st (cover_dir env) \<or> mkdir_error env = None \<Longrightarrow>
   write_error env = Some e \<Longrightarrow>
   save_thumbnail env st md fn = (Inl e, with_cover_dir env st)"
  by (auto simp: save_thumbnail_def first_cover_def path_join_def cover_dir_def mkdirSync_def writeFileSync_def
      with_cover_dir_def Let_def split: option.splits list.splits)

lemma save_thumbnail_written:
  "first_cover md = Some c \<Longrightarrow> existsSync st (cover_dir env) \<or> mkdir_error env = None \<Longrightarrow>
   write_error env = None \<Longrightarrow>
   save_thumbnail env st md fn =
     (Inr (Str (''uploads/covers/'' @ dec (now_cover env) @ ''-'' @ fn @ ''-cover.jpg'')),
      (with_cover_dir env st)\<lparr>files := (files st)
         (app_dir env @ ''/uploads/covers/'' @ dec (now_cover env) @ ''-'' @ fn @ ''-cover.jpg''
            \<mapsto> picture_data c)\<rparr>)"
  by (auto simp: save_thumbnail_def first_cover_def path_join_def cover_dir_def mkdirSync_def writeFileSync_def
      with_cover_dir_def Let_def split: option.splits list.splits)

lemma save_thumbnail_frame:
  "songs (snd (save_thumbnail env st md fn)) = songs st"
  "songs_seq (snd (save_thumbnail env st md fn)) = songs_seq st"
  "users (snd (save_thumbnail env st md fn)) = users st"
  "history (snd (save_thumbnail env st md fn)) = history st"
  "routes (snd (save_thumbnail env st md fn)) = routes st"
  by (auto simp: save_thumbnail_def mkdirSync_def writeFileSync_def Let_def
      split: option.splits list.splits)

lemma parseFile_stored: "parseFile env (st\<lparr>files := (files st)(p \<mapsto> d)\<rparr>) p = mm_parse env d"
  by (simp add: parseFile_def)

lemma upload_song_file:
  "song_part req = Some part \<Longrightarrow>
   upload_song env st req =
     upload_handler env
       (st\<lparr>files := (files st)(song_file env (part_filename part) \<mapsto> part_data part)\<rparr>)
       \<lparr>req_file = Some \<lparr>originalname = part_filename part,
                          path = storage_path (now_filename env) (part_filename part)\<rparr>,
        req_body = text_fields req\<rparr>"
  by (simp add: upload_song_def upload_single_file)

lemma upload_try_parsed:
  assumes "req_file req = Some file" and "import_error env = None"
    and "parseFile env st (path_resolve (app_dir env) (path file)) = Inr md"
  shows "upload_try env st req =
     (case save_thumbnail env st md (path_parse_name (originalname file)) of
        (Inl err, st1) \<Rightarrow> (Some err, st1)
      | (Inr thumbnailPath, st1) \<Rightarrow>
          (case insert_error env of
             Some err \<Rightarrow> (Some err, st1)
           | None \<Rightarrow>
               (None,
                st1\<lparr>songs := songs st1 @
                      [\<lparr>songs_id = songs_seq st1,
                        songs_title = Str (three_tier (common_title md) (req_body req ''title'')
                                             (path_parse_name (originalname file))),
                        songs_artist = Str (three_tier (common_artist md) (req_body req ''artist'') ''Unknown Artist''),
                        songs_album = Str (three_tier (common_album md) (req_body req ''album'') ''Unknown Album''),
                        songs_mood = js_or (of_string (req_body req ''mood'')) (Str []),
                        songs_genre = Str (three_tier (embedded_genre md) (req_body req ''genre'') ''Unknown''),
                        songs_language = of_string (req_body req ''language''),
                        songs_filepath = Str (path file),
                        songs_user_id = of_string (req_body req ''userId''),
                        songs_bitrate = js_or (of_number (format_bitrate md)) (Num 0),
                        songs_duration = js_or (of_number (format_duration md)) (Num 0),
                        songs_thumbnail = thumbnailPath\<rparr>],
                    songs_seq := songs_seq st1 + 1\<rparr>)))"
  using assms by (simp add: upload_try_def Let_def three_tier_or genre_0_embedded)

lemma upload_try_import_throws:
  "req_file req = Some file \<Longrightarrow> import_error env = Some e \<Longrightarrow> upload_try env st req = (Some e, st)"
  by (simp add: upload_try_def Let_def)

lemma upload_try_parse_throws:
  "req_file req = Some file \<Longrightarrow> import_error env = None \<Longrightarrow>
   parseFile env st (path_resolve (app_dir env) (path file)) = Inl e \<Longrightarrow>
   upload_try env st req = (Some e, st)"
  by (simp add: upload_try_def Let_def)

lemma upload_handler_status:
  "status (fst (upload_handler env st req)) = 200 \<longleftrightarrow> fst (upload_try env st req) = None"
  by (simp add: upload_handler_def split_beta split: option.splits)

lemma upload_handler_state:
  "snd (upload_handler env st req) =
     (snd (upload_try env st req))\<lparr>routes := routes (snd (upload_try env st req)) @ nested_routes\<rparr>"
  by (simp add: upload_handler_def split_beta)

lemma three_tier_row:
  assumes part: "song_part req = Some part"
    and md: "mm_parse env (part_data part) = Inr md"
    and ok: "status (fst (upload_song env st req)) = 200"
  shows "\<exists>row. songs (snd (upload_song env st req)) = songs st @ [row]
      \<and> songs_title row = Str (three_tier (common_title md) (text_fields req ''title'')
                                 (path_parse_name (part_filename part)))
      \<and> songs_artist row = Str (three_tier (common_artist md) (text_fields req ''artist'') ''Unknown Artist'')
      \<and> songs_album row = Str (three_tier (common_album md) (text_fields req ''album'') ''Unknown Album'')
      \<and> songs_genre row = Str (three_tier (embedded_genre md) (text_fields req ''genre'') ''Unknown'')"
proof -
  define st1 where "st1 = st\<lparr>files := (files st)(song_file env (part_filename part) \<mapsto> part_data part)\<rparr>"
  define f where "f = \<lparr>originalname = part_filename part,
                          path = storage_path (now_filename env) (part_filename part)\<rparr>"
  define req1 where "req1 = \<lparr>req_file = Some f, req_body = text_fields req\<rparr>"
  have song: "upload_song env st req = upload_handler env st1 req1"
    by (simp add: upload_song_file [OF part] st1_def req1_def f_def)
  have rf: "req_file req1 = Some f" by (simp add: req1_def)
  have none: "fst (upload_try env st1 req1) = None"
    using ok by (simp add: song upload_handler_status)
  have imp: "import_error env = None"
  proof (cases "import_error env")
    case (Some e)
    with none upload_try_import_throws [OF rf Some, of st1] show ?thesis by simp
  qed simp
  have parse: "parseFile env st1 (path_resolve (app_dir env) (path f)) = Inr md"
    by (simp add: f_def resolve_storage_path st1_def parseFile_stored md)
  note nf = upload_try_parsed [OF rf imp parse]
  obtain r st2 where save: "save_thumbnail env st1 md (path_parse_name (originalname f)) = (r, st2)"
    by (cases "save_thumbnail env st1 md (path_parse_name (originalname f))")
  have st2: "songs st2 = songs st"
    using save_thumbnail_frame(1) [of env st1 md "path_parse_name (originalname f)"] save
    by (simp add: st1_def)
  from none obtain thumb where r: "r = Inr thumb" and ins: "insert_error env = None"
    by (cases r; cases "insert_error env") (simp_all add: nf save)
  show ?thesis
    unfolding song upload_handler_state nf save r ins
    by (simp add: st2 req1_def f_def)
qed

lemma three_tier_empty_field: "three_tier t (Some []) d = three_tier t None d"
  by (simp add: three_tier_def split: option.splits list.splits)

lemma upload_try_empty_field:
  assumes k: "k \<in> {''title'', ''artist'', ''album'', ''genre''}"
  shows "upload_try env st \<lparr>req_file = rf, req_body = b(k \<mapsto> [])\<rparr> =
         upload_try env st \<lparr>req_file = rf, req_body = b(k := None)\<rparr>"
proof (cases rf)
  case None
  then show ?thesis by (simp add: upload_try_def)
next
  case (Some f)
  show ?thesis
  proof (cases "import_error env")
    case e: (Some e)
    show ?thesis by (simp add: upload_try_import_throws [OF _ e] Some)
  next
    case imp: None
    show ?thesis
    proof (cases "parseFile env st (path_resolve (app_dir env) (path f))")
      case (Inl e)
      show ?thesis by (simp add: upload_try_parse_throws [OF _ imp Inl] Some)
    next
      case (Inr md)
      show ?thesis
        using k
        by (auto simp: upload_try_parsed [OF _ imp Inr] Some three_tier_empty_field
            split: prod.splits sum.splits option.splits)
    qed
  qed
qed

lemma upload_song_empty_field:
  assumes k: "k \<in> {''title'', ''artist'', ''album'', ''genre''}"
  shows "upload_song env st (req\<lparr>text_fields := (text_fields req)(k \<mapsto> [])\<rparr>) =
         upload_song env st (req\<lparr>text_fields := (text_fields req)(k := None)\<rparr>)"
  by (simp add: upload_song_def upload_single_def upload_handler_def Let_def
      upload_try_empty_field [OF k] split: option.splits)

lemma save_thumbnail_Inr_cases:
  assumes "save_thumbnail env st md fn = (Inr thumb, st2)"
  shows "(first_cover md = None \<and> thumb = Null \<and> st2 = st) \<or>
         (\<exists>c. first_cover md = Some c
            \<and> thumb = Str (''uploads/covers/'' @ dec (now_cover env) @ ''-'' @ fn @ ''-cover.jpg'')
            \<and> st2 = (with_cover_dir env st)\<lparr>files := (files st)
                  (app_dir env @ ''/uploads/covers/'' @ dec (now_cover env) @ ''-'' @ fn @ ''-cover.jpg''
                     \<mapsto> picture_data c)\<rparr>)"
proof (cases "first_cover md")
  case None
  with assms show ?thesis by (simp add: save_thumbnail_no_cover)
next
  case (Some c)
  show ?thesis
  proof (cases "existsSync st (cover_dir env) \<or> mkdir_error env = None")
    case True
    show ?thesis
    proof (cases "write_error env")
      case None
      from assms show ?thesis
        by (simp add: save_thumbnail_written [OF Some True None] Some)
    next
      case e: (Some e)
      from assms show ?thesis
        by (simp add: save_thumbnail_write_throws [OF Some True e])
    qed
  next
    case False
    then obtain e where "\<not> existsSync st (cover_dir env)" "mkdir_error env = Some e" by auto
    with assms show ?thesis
      by (simp add: save_thumbnail_mkdir_throws [OF Some])
  qed
qed

lemma song_file_not_cover_dir: "song_file env n \<noteq> cover_dir env"
  by (simp add: song_file_def cover_dir_def)

lemma existsSync_intake:
  "existsSync (st\<lparr>files := (files st)(song_file env n \<mapsto> d)\<rparr>) (cover_dir env) =
   existsSync st (cover_dir env)"
  using song_file_not_cover_dir [of env n] by (auto simp: existsSync_def)

lemma save_thumbnail_keeps_song:
  "files (snd (save_thumbnail env st md fn)) (song_file env n) = files st (song_file env n)"
  by (auto simp: save_thumbnail_def mkdirSync_def writeFileSync_def Let_def path_join_def song_file_def
      split: option.splits list.splits)

lemma upload_try_keeps_song:
  "files (snd (upload_try env st req)) (song_file env n) = files st (song_file env n)"
proof (cases "req_file req")
  case None
  then show ?thesis by (simp add: upload_try_def)
next
  case (Some f)
  show ?thesis
  proof (cases "import_error env")
    case e: (Some e)
    show ?thesis by (simp add: upload_try_import_throws [OF Some e])
  next
    case imp: None
    show ?thesis
    proof (cases "parseFile env st (path_resolve (app_dir env) (path f))")
      case (Inl e)
      show ?thesis by (simp add: upload_try_parse_throws [OF Some imp Inl])
    next
      case (Inr md)
      show ?thesis
        using save_thumbnail_keeps_song [of env st md "path_parse_name (originalname f)" n]
        by (auto simp: upload_try_parsed [OF Some imp Inr] split: prod.splits sum.splits option.splits)
    qed
  qed
qed

lemma upload_try_frame:
  "users (snd (upload_try env st req)) = users st"
  "history (snd (upload_try env st req)) = history st"
  "routes (snd (upload_try env st req)) = routes st"
proof -
  have "users (snd (upload_try env st req)) = users st \<and>
        history (snd (upload_try env st req)) = history st \<and>
        routes (snd (upload_try env st req)) = routes st"
  proof (cases "req_file req")
    case None
    then show ?thesis by (simp add: upload_try_def)
  next
    case (Some f)
    show ?thesis
    proof (cases "import_error env")
      case e: (Some e)
      show ?thesis by (simp add: upload_try_import_throws [OF Some e])
    next
      case imp: None
      show ?thesis
      proof (cases "parseFile env st (path_resolve (app_dir env) (path f))")
        case (Inl e)
        show ?thesis by (simp add: upload_try_parse_throws [OF Some imp Inl])
      next
        case (Inr md)
        show ?thesis
          using save_thumbnail_frame(3,4,5) [of env st md "path_parse_name (originalname f)"]
          by (auto simp: upload_try_parsed [OF Some imp Inr] split: prod.splits sum.splits option.splits)
      qed
    qed
  qed
  then show "users (snd (upload_try env st req)) = users st"
    "history (snd (upload_try env st req)) = history st"
    "routes (snd (upload_try env st req)) = routes st" by simp_all
qed

lemma upload_song_routes: "routes (snd (upload_song env st req)) = routes st @ nested_routes"
  by (cases "song_part req")
     (simp_all add: upload_song_def upload_single_def upload_handler_state upload_try_frame Let_def)

lemma upload_song_keeps_song:
  assumes part: "song_part req = Some part"
  shows "files (snd (upload_song env st req)) (song_file env (part_filename part)) = Some (part_data part)"
  by (simp add: upload_song_file [OF part] upload_handler_state upload_try_keeps_song)

lemma upload_ok_thumbnail:
  assumes part: "song_part req = Some part"
    and md: "mm_parse env (part_data part) = Inr md"
    and ok: "status (fst (upload_song env st req)) = 200"
  shows "\<exists>thumb st2 row.
      save_thumbnail env
        (st\<lparr>files := (files st)(song_file env (part_filename part) \<mapsto> part_data part)\<rparr>)
        md (path_parse_name (part_filename part)) = (Inr thumb, st2)
    \<and> songs (snd (upload_song env st req)) = songs st @ [row]
    \<and> songs_thumbnail row = thumb
    \<and> files (snd (upload_song env st req)) = files st2"
proof -
  define st1 where "st1 = st\<lparr>files := (files st)(song_file env (part_filename part) \<mapsto> part_data part)\<rparr>"
  define f where "f = \<lparr>originalname = part_filename part,
                          path = storage_path (now_filename env) (part_filename part)\<rparr>"
  define req1 where "req1 = \<lparr>req_file = Some f, req_body = text_fields req\<rparr>"
  have song: "upload_song env st req = upload_handler env st1 req1"
    by (simp add: upload_song_file [OF part] st1_def req1_def f_def)
  have rf: "req_file req1 = Some f" by (simp add: req1_def)
  have none: "fst (upload_try env st1 req1) = None"
    using ok by (simp add: song upload_handler_status)
  have imp: "import_error env = None"
  proof (cases "import_error env")
    case (Some e)
    with none upload_try_import_throws [OF rf Some, of st1] show ?thesis by simp
  qed simp
  have parse: "parseFile env st1 (path_resolve (app_dir env) (path f)) = Inr md"
    by (simp add: f_def resolve_storage_path st1_def parseFile_stored md)
  note nf = upload_try_parsed [OF rf imp parse]
  obtain r st2 where save: "save_thumbnail env st1 md (path_parse_name (originalname f)) = (r, st2)"
    by (cases "save_thumbnail env st1 md (path_parse_name (originalname f))")
  have st2: "songs st2 = songs st"
    using save_thumbnail_frame(1) [of env st1 md "path_parse_name (originalname f)"] save
    by (simp add: st1_def)
  from none obtain thumb where r: "r = Inr thumb" and ins: "insert_error env = None"
    by (cases r; cases "insert_error env") (simp_all add: nf save)
  have name: "originalname f = part_filename part" by (simp add: f_def)
  show ?thesis
    unfolding song upload_handler_state nf save r ins
    using save by (simp add: st2 name r flip: st1_def)
qed

lemma upload_handler_thrown:
  "fst (upload_try env st req) = Some e \<Longrightarrow> fst (upload_handler env st req) = upload_failure e"
  by (simp add: upload_handler_def upload_failure_def split_beta)

lemma upload_caughtI:
  assumes part: "song_part req = Some part"
    and thrown: "upload_try env
        (st\<lparr>files := (files st)(song_file env (part_filename part) \<mapsto> part_data part)\<rparr>)
        \<lparr>req_file = Some \<lparr>originalname = part_filename part,
                           path = storage_path (now_filename env) (part_filename part)\<rparr>,
         req_body = text_fields req\<rparr> = (Some e, st2)"
    and songs: "songs st2 = songs st"
  shows "upload_caught env st req part e"
  unfolding upload_caught_def
  using upload_song_keeps_song [OF part, of env st] thrown songs
  by (simp add: upload_song_file [OF part] upload_handler_thrown upload_handler_state)

lemma uploads_routes_count:
  assumes "r \<in> set nested_routes"
  shows "count_list (routes (uploads ups st)) r = count_list (routes st) r + length ups"
proof (induction ups arbitrary: st)
  case Nil
  show ?case by simp
next
  case (Cons a ups)
  obtain env req where a: "a = (env, req)" by (cases a)
  have "count_list nested_routes r = 1"
    using assms by (auto simp: nested_routes_def)
  then show ?case
    by (simp add: a Cons.IH upload_song_routes)
qed

subsection \<open>Decimal numerals and stored paths\<close>

text \<open>A decimal numeral is read back as the number it prints, and holds digits only, so
  the path of a stored upload determines its timestamp and its file name.\<close>

lemma digit_inj: "a < 10 \<Longrightarrow> b < 10 \<Longrightarrow> digit a = digit b \<longleftrightarrow> a = b"
proof -
  assume a: "a < 10" and b: "b < 10"
  have d: "distinct ''0123456789''" by simp
  show ?thesis
    unfolding digit_def using a b by (intro nth_eq_iff_index_eq [OF d]) simp_all
qed

lemma digit_in: "d < 10 \<Longrightarrow> digit d \<in> set ''0123456789''"
  unfolding digit_def by (rule nth_mem) simp

lemma dec_not_Nil: "dec n \<noteq> []"
  by (subst dec.simps) simp

lemma dec_digits: "set (dec n) \<subseteq> set ''0123456789''"
proof (induction n rule: dec.induct)
  case (1 n)
  show ?case
  proof (cases "n < 10")
    case True
    then show ?thesis using digit_in [of n] by (subst dec.simps) simp
  next
    case False
    have "n mod 10 < 10" by simp
    from digit_in [OF this] 1 [OF False] False show ?thesis
      by (subst dec.simps) simp
  qed
qed

lemma dash_not_in_dec: "CHR ''-'' \<notin> set (dec n)"
  using dec_digits [of n] by auto

lemma dec_inj: "dec m = dec n \<Longrightarrow> m = n"
proof (induction m arbitrary: n rule: dec.induct)
  case (1 m)
  note eq = "1.prems"
  show ?case
  proof (cases "m < 10")
    case m: True
    show ?thesis
    proof (cases "n < 10")
      case True
      with m eq show ?thesis by (simp add: dec.simps [of m] dec.simps [of n] digit_inj)
    next
      case False
      with m eq dec_not_Nil [of "n div 10"] show ?thesis
        by (simp add: dec.simps [of m] dec.simps [of n])
    qed
  next
    case m: False
    show ?thesis
    proof (cases "n < 10")
      case True
      with m eq dec_not_Nil [of "m div 10"] show ?thesis
        by (simp add: dec.simps [of m] dec.simps [of n])
    next
      case False
      with m eq have "dec (m div 10) = dec (n div 10)" and "digit (m mod 10) = digit (n mod 10)"
        by (simp_all add: dec.simps [of m] dec.simps [of n])
      then have "m div 10 = n div 10" and "m mod 10 = n mod 10"
        using "1.IH" [OF m] by (simp_all add: digit_inj)
      then show ?thesis by (metis div_mult_mod_eq)
    qed
  qed
qed

lemma split_at_first:
  assumes "x \<notin> set a" and "x \<notin> set b"
  shows "a @ x # u = b @ x # v \<longleftrightarrow> a = b \<and> u = v"
proof
  assume eq: "a @ x # u = b @ x # v"
  have "takeWhile (\<lambda>y. y \<noteq> x) (a @ x # u) = a" "takeWhile (\<lambda>y. y \<noteq> x) (b @ x # v) = b"
    using assms by (auto simp: takeWhile_tail takeWhile_eq_all_conv)
  with eq have "a = b" by simp
  with eq show "a = b \<and> u = v" by simp
qed simp

lemma song_file_inj:
  assumes "app_dir env' = app_dir env"
  shows "song_file env' n' = song_file env n \<longleftrightarrow> now_filename env' = now_filename env \<and> n' = n"
proof -
  have "dec (now_filename env') @ CHR ''-'' # n' = dec (now_filename env) @ CHR ''-'' # n
        \<longleftrightarrow> dec (now_filename env') = dec (now_filename env) \<and> n' = n"
    by (rule split_at_first) (rule dash_not_in_dec)+
  then show ?thesis
    using assms dec_inj [of "now_filename env'" "now_filename env"]
    by (auto simp: song_file_def)
qed

lemma dec_scenario:
  "dec 1700000000000 = ''1700000000000''"
  "dec 1700000000001 = ''1700000000001''"
  by (simp_all add: dec.simps digit_def)

subsection \<open>The genre list\<close>

lemma with_genre_simps:
  "app_dir (with_genre g env) = app_dir env"
  "now_filename (with_genre g env) = now_filename env"
  "now_cover (with_genre g env) = now_cover env"
  "import_error (with_genre g env) = import_error env"
  "mkdir_error (with_genre g env) = mkdir_error env"
  "write_error (with_genre g env) = write_error env"
  "insert_error (with_genre g env) = insert_error env"
  by (simp_all add: with_genre_def)

lemma parseFile_with_genre:
  "parseFile (with_genre g env) st p =
     (case parseFile env st p of Inl e \<Rightarrow> Inl e | Inr md \<Rightarrow> Inr (md\<lparr>common_genre := g\<rparr>))"
  by (simp add: parseFile_def with_genre_def split: option.splits)

lemma save_thumbnail_with_genre:
  "save_thumbnail (with_genre g env) st (md\<lparr>common_genre := g\<rparr>) fn = save_thumbnail env st md fn"
  by (simp add: save_thumbnail_def mkdirSync_def writeFileSync_def with_genre_simps Let_def
      split: option.splits)

lemma upload_try_with_genre:
  assumes "embedded_genre (md0\<lparr>common_genre := g\<rparr>) = embedded_genre (md0\<lparr>common_genre := g'\<rparr>)"
  shows "upload_try (with_genre g env) st req = upload_try (with_genre g' env) st req"
proof (cases "req_file req")
  case None
  then show ?thesis by (simp add: upload_try_def)
next
  case (Some f)
  show ?thesis
  proof (cases "import_error env")
    case e: (Some e)
    then have "import_error (with_genre g env) = Some e" "import_error (with_genre g' env) = Some e"
      by (simp_all add: with_genre_simps)
    then show ?thesis by (simp add: upload_try_import_throws [OF Some])
  next
    case imp: None
    then have imps: "import_error (with_genre g env) = None" "import_error (with_genre g' env) = None"
      by (simp_all add: with_genre_simps)
    show ?thesis
    proof (cases "parseFile env st (path_resolve (app_dir env) (path f))")
      case (Inl e)
      then have "parseFile (with_genre g env) st (path_resolve (app_dir (with_genre g env)) (path f)) = Inl e"
        "parseFile (with_genre g' env) st (path_resolve (app_dir (with_genre g' env)) (path f)) = Inl e"
        by (simp_all add: parseFile_with_genre with_genre_simps)
      then show ?thesis by (simp add: upload_try_parse_throws [OF Some] imps)
    next
      case (Inr md)
      then have p: "parseFile (with_genre g env) st (path_resolve (app_dir (with_genre g env)) (path f))
            = Inr (md\<lparr>common_genre := g\<rparr>)"
        "parseFile (with_genre g' env) st (path_resolve (app_dir (with_genre g' env)) (path f))
            = Inr (md\<lparr>common_genre := g'\<rparr>)"
        by (simp_all add: parseFile_with_genre with_genre_simps)
      have eg: "embedded_genre (md\<lparr>common_genre := g\<rparr>) = embedded_genre (md\<lparr>common_genre := g'\<rparr>)"
        using assms by (simp add: embedded_genre_def)
      show ?thesis
        by (simp add: upload_try_parsed [OF Some imps(1) p(1)] upload_try_parsed [OF Some imps(2) p(2)]
            save_thumbnail_with_genre with_genre_simps eg
            split: prod.splits sum.splits option.splits)
    qed
  qed
qed

lemma upload_song_with_genre:
  assumes "embedded_genre (md0\<lparr>common_genre := g\<rparr>) = embedded_genre (md0\<lparr>common_genre := g'\<rparr>)"
  shows "upload_song (with_genre g env) st req = upload_song (with_genre g' env) st req"
  by (simp add: upload_song_def upload_single_def upload_handler_def with_genre_simps Let_def
      upload_try_with_genre [OF assms] split: option.splits)

subsection \<open>Login and recommendations\<close>

lemma filter_find_Some: "find P xs = Some x \<Longrightarrow> \<exists>ys. filter P xs = x # ys"
  by (induction xs) (auto split: if_splits)

lemma filter_find_None: "find P xs = None \<Longrightarrow> filter P xs = []"
  by (induction xs) (auto split: if_splits)

text \<open>The spread of a set has the elements of the list, each once; the first query returns
  the three latest plays of the user.\<close>

lemma set_add_all_set: "set (set_add_all seen xs) = set seen \<union> set xs"
  by (induction xs arbitrary: seen) auto

lemma set_add_all_distinct: "distinct seen \<Longrightarrow> distinct (set_add_all seen xs)"
  by (induction xs arbitrary: seen) auto

lemma spread_new_Set_set: "set (spread_new_Set xs) = set xs"
  by (simp add: spread_new_Set_def set_add_all_set)

lemma spread_new_Set_distinct: "distinct (spread_new_Set xs)"
  by (simp add: spread_new_Set_def set_add_all_distinct)

lemma join_songs: "map (Pair h) (filter P ss) = concat (map (\<lambda>s. if P s then [(h, s)] else []) ss)"
  by (induction ss) auto

lemma selected_user_plays:
  "filter (\<lambda>hs. userId = Some (history_user_id (fst hs)))
     (concat (map (\<lambda>h. map (\<lambda>s. (h, s)) (filter (\<lambda>s. songs_id s = history_song_id h) ss)) hs)) =
   concat (map (\<lambda>h. if userId = Some (history_user_id h)
                      then concat (map (\<lambda>s. if songs_id s = history_song_id h then [(h, s)] else []) ss)
                      else []) hs)"
proof (induction hs)
  case Nil
  show ?case by simp
next
  case (Cons h hs)
  have "filter (\<lambda>hs. userId = Some (history_user_id (fst hs))) (map (Pair h) ys) =
        (if userId = Some (history_user_id h) then map (Pair h) ys else [])" for ys
    by (induction ys) auto
  with Cons show ?case by (simp add: join_songs)
qed

lemma recent_plays_eq:
  "recent_plays st userId = take 3 (sort_key (\<lambda>hs. - history_played_at (fst hs)) (user_plays st userId))"
  by (simp add: recent_plays_def user_plays_def selected_user_plays)

lemma played_recent:
  "recent_plays played_state (Some 7) =
     [(\<lparr>history_user_id = 7, history_song_id = 1, history_played_at = 40\<rparr>, example_song 1 ''happy''),
      (\<lparr>history_user_id = 7, history_song_id = 2, history_played_at = 30\<rparr>, example_song 2 ''sad''),
      (\<lparr>history_user_id = 7, history_song_id = 1, history_played_at = 20\<rparr>, example_song 1 ''happy'')]"
  by (simp add: recent_plays_def played_state_def example_song_def)

lemma played_all:
  "user_plays played_state (Some 7) =
     [(\<lparr>history_user_id = 7, history_song_id = 3, history_played_at = 10\<rparr>, example_song 3 ''calm''),
      (\<lparr>history_user_id = 7, history_song_id = 1, history_played_at = 20\<rparr>, example_song 1 ''happy''),
      (\<lparr>history_user_id = 7, history_song_id = 2, history_played_at = 30\<rparr>, example_song 2 ''sad''),
      (\<lparr>history_user_id = 7, history_song_id = 1, history_played_at = 40\<rparr>, example_song 1 ''happy'')]"
  by (simp add: user_plays_def played_state_def example_song_def)

section \<open>The claims\<close>

text \<open>
  Claim C1. In every successful upload of a file whose extraction returned \<open>md\<close>, the row
  written has as title, artist, album and genre the embedded tag value if non-empty, else
  the client-supplied field if non-empty, else the default: the original file name without
  its extension for the title, \<^verbatim>\<open>Unknown Artist\<close>, \<^verbatim>\<open>Unknown Album\<close> and \<^verbatim>\<open>Unknown\<close>. One
  tier gives the whole value. A client field that is the empty string gives the same
  response and the same state as that field missing.
\<close>

theorem upload_fields_three_tier:
  assumes part: "song_part req = Some part"
    and md: "mm_parse env (part_data part) = Inr md"
    and ok: "status (fst (upload_song env st req)) = 200"
  shows "(\<exists>row. songs (snd (upload_song env st req)) = songs st @ [row]
      \<and> songs_title row = Str (three_tier (common_title md) (text_fields req ''title'')
                                 (path_parse_name (part_filename part)))
      \<and> songs_artist row = Str (three_tier (common_artist md) (text_fields req ''artist'') ''Unknown Artist'')
      \<and> songs_album row = Str (three_tier (common_album md) (text_fields req ''album'') ''Unknown Album'')
      \<and> songs_genre row = Str (three_tier (embedded_genre md) (text_fields req ''genre'') ''Unknown''))
    \<and> (\<forall>k \<in> {''title'', ''artist'', ''album'', ''genre''}.
          upload_song env st (req\<lparr>text_fields := (text_fields req)(k \<mapsto> [])\<rparr>) =
          upload_song env st (req\<lparr>text_fields := (text_fields req)(k := None)\<rparr>))"
  using three_tier_row [OF part md ok] upload_song_empty_field [of _ env st req]
  by blast

theorem upload_fields_three_tier_witness:
  "(\<exists>row. songs (snd (upload_song scenario_env scenario_state scenario_request)) = songs scenario_state @ [row]
     \<and> songs_title row = Str ''track''
     \<and> songs_artist row = Str ''Unknown Artist''
     \<and> songs_album row = Str ''Unknown Album''
     \<and> songs_genre row = Str ''Unknown'')
   \<and> (\<exists>row. songs (snd (upload_song tagged_env scenario_state tagged_request)) = songs scenario_state @ [row]
     \<and> songs_title row = Str ''Blue in Green''
     \<and> songs_artist row = Str ''Miles Davis''
     \<and> songs_album row = Str ''Unknown Album''
     \<and> songs_genre row = Str ''Jazz'')
   \<and> upload_song scenario_env scenario_state
         (scenario_request\<lparr>text_fields := (text_fields scenario_request)(''title'' \<mapsto> [])\<rparr>) =
       upload_song scenario_env scenario_state
         (scenario_request\<lparr>text_fields := (text_fields scenario_request)(''title'' := None)\<rparr>)"
proof -
  have part: "song_part scenario_request = Some scenario_part"
    "song_part tagged_request = Some scenario_part"
    by (simp_all add: scenario_request_def tagged_request_def)
  have md: "mm_parse scenario_env (part_data scenario_part) = Inr no_tags"
    "mm_parse tagged_env (part_data scenario_part) = Inr tagged"
    by (simp_all add: scenario_env_def tagged_env_def)
  have ok: "status (fst (upload_song scenario_env scenario_state scenario_request)) = 200"
    "status (fst (upload_song tagged_env scenario_state tagged_request)) = 200"
    by (simp_all add: upload_defs dec_scenario example_defs tagged_def tagged_env_def tagged_request_def)
  have name: "path_parse_name (part_filename scenario_part) = ''track''"
    by (simp add: scenario_part_def path_parse_name_def path_basename_def)
  have fields: "text_fields scenario_request ''title'' = None"
    "text_fields scenario_request ''artist'' = None"
    "text_fields scenario_request ''album'' = None"
    "text_fields scenario_request ''genre'' = None"
    "text_fields tagged_request ''title'' = Some ''My title''"
    "text_fields tagged_request ''artist'' = Some ''Miles Davis''"
    "text_fields tagged_request ''album'' = Some []"
    "text_fields tagged_request ''genre'' = None"
    by (simp_all add: scenario_request_def tagged_request_def)
  have tiers: "three_tier (common_title no_tags) None ''track'' = ''track''"
    "three_tier (common_artist no_tags) None ''Unknown Artist'' = ''Unknown Artist''"
    "three_tier (common_album no_tags) None ''Unknown Album'' = ''Unknown Album''"
    "three_tier (embedded_genre no_tags) None ''Unknown'' = ''Unknown''"
    "three_tier (common_title tagged) (Some ''My title'') ''track'' = ''Blue in Green''"
    "three_tier (common_artist tagged) (Some ''Miles Davis'') ''Unknown Artist'' = ''Miles Davis''"
    "three_tier (common_album tagged) (Some []) ''Unknown Album'' = ''Unknown Album''"
    "three_tier (embedded_genre tagged) None ''Unknown'' = ''Jazz''"
    by (simp_all add: three_tier_def embedded_genre_def no_tags_def tagged_def)
  from upload_fields_three_tier [OF part(1) md(1) ok(1)] upload_fields_three_tier [OF part(2) md(2) ok(2)]
  show ?thesis
    unfolding name fields tiers by simp
qed

text \<open>
  Claim C2. In every successful upload the thumbnail of the row written is \<^verbatim>\<open>null\<close>, never
  the empty string, exactly when the file carried no embedded cover. With one or more
  covers the thumbnail is the relative path of the cover file, and the disk differs from
  the disk after intake in that one file, which holds the data of the first cover. With
  no cover the disk is as intake left it.
\<close>

theorem upload_thumbnail_iff_cover:
  assumes part: "song_part req = Some part"
    and md: "mm_parse env (part_data part) = Inr md"
    and ok: "status (fst (upload_song env st req)) = 200"
  shows "\<exists>row. songs (snd (upload_song env st req)) = songs st @ [row]
      \<and> (songs_thumbnail row = Null \<longleftrightarrow> first_cover md = None)
      \<and> songs_thumbnail row \<noteq> Str []
      \<and> (case first_cover md of
            None \<Rightarrow>
              files (snd (upload_song env st req)) =
                (files st)(song_file env (part_filename part) \<mapsto> part_data part)
          | Some cover \<Rightarrow>
              songs_thumbnail row = Str (cover_name env (part_filename part))
              \<and> files (snd (upload_song env st req)) =
                  (files st)(song_file env (part_filename part) \<mapsto> part_data part,
                             app_dir env @ ''/'' @ cover_name env (part_filename part) \<mapsto> picture_data cover))"
proof -
  from upload_ok_thumbnail [OF part md ok] obtain thumb st2 row where
    save: "save_thumbnail env
        (st\<lparr>files := (files st)(song_file env (part_filename part) \<mapsto> part_data part)\<rparr>)
        md (path_parse_name (part_filename part)) = (Inr thumb, st2)"
    and row: "songs (snd (upload_song env st req)) = songs st @ [row]" "songs_thumbnail row = thumb"
    and files: "files (snd (upload_song env st req)) = files st2"
    by blast
  from save_thumbnail_Inr_cases [OF save] show ?thesis
    by (auto simp: row files cover_name_def with_cover_dir_def)
qed

theorem upload_thumbnail_iff_cover_witness:
  "(\<exists>row. songs (snd (upload_song tagged_env scenario_state tagged_request)) = songs scenario_state @ [row]
      \<and> songs_thumbnail row = Str ''uploads/covers/1700000000001-track-cover.jpg''
      \<and> files (snd (upload_song tagged_env scenario_state tagged_request)) =
          (files scenario_state)
            (''/srv/audix/backend/uploads/songs/1700000000000-track.mp3'' \<mapsto> [73, 68, 51],
             ''/srv/audix/backend/uploads/covers/1700000000001-track-cover.jpg'' \<mapsto> [255, 216, 255]))
   \<and> (\<exists>row. songs (snd (upload_song scenario_env scenario_state scenario_request)) = songs scenario_state @ [row]
      \<and> songs_thumbnail row = Null
      \<and> files (snd (upload_song scenario_env scenario_state scenario_request)) =
          (files scenario_state)
            (''/srv/audix/backend/uploads/songs/1700000000000-track.mp3'' \<mapsto> [73, 68, 51]))"
proof -
  have part: "song_part tagged_request = Some scenario_part" "song_part scenario_request = Some scenario_part"
    by (simp_all add: example_defs tagged_request_def)
  have md: "mm_parse tagged_env (part_data scenario_part) = Inr tagged"
    "mm_parse scenario_env (part_data scenario_part) = Inr no_tags"
    by (simp_all add: example_defs tagged_env_def)
  have ok: "status (fst (upload_song tagged_env scenario_state tagged_request)) = 200"
    "status (fst (upload_song scenario_env scenario_state scenario_request)) = 200"
    by (simp_all add: upload_defs dec_scenario example_defs tagged_def tagged_env_def tagged_request_def)
  have cover: "first_cover tagged = Some \<lparr>picture_format = ''image/jpeg'', picture_data = [255, 216, 255]\<rparr>"
    "first_cover no_tags = None"
    by (simp_all add: first_cover_def example_defs tagged_def)
  have names: "song_file tagged_env (part_filename scenario_part) = ''/srv/audix/backend/uploads/songs/1700000000000-track.mp3''"
    "song_file scenario_env (part_filename scenario_part) = ''/srv/audix/backend/uploads/songs/1700000000000-track.mp3''"
    "cover_name tagged_env (part_filename scenario_part) = ''uploads/covers/1700000000001-track-cover.jpg''"
    "app_dir tagged_env = ''/srv/audix/backend''"
    "part_data scenario_part = [73, 68, 51]"
    by (simp_all add: song_file_def cover_name_def example_defs tagged_env_def dec_scenario path_parse_name_def path_basename_def)
  from upload_thumbnail_iff_cover [OF part(1) md(1) ok(1)] upload_thumbnail_iff_cover [OF part(2) md(2) ok(2)]
  show ?thesis
    unfolding cover names by simp blast
qed

text \<open>
  Claim C3. When the import of the extractor, the extraction, the creation of the cover
  directory, the write of the cover or the insert throws \<open>err\<close>, the upload is caught with
  \<open>err\<close>: the response is the 500 failure with an \<^verbatim>\<open>error\<close> field and the message of \<open>err\<close>
  as \<^verbatim>\<open>details\<close>, the songs table is unchanged, and the audio file stored at intake is
  still there.
\<close>

theorem upload_exception_caught:
  assumes part: "song_part req = Some part"
  shows "(import_error env = Some err \<longrightarrow> upload_caught env st req part err)
    \<and> (import_error env = None \<and> mm_parse env (part_data part) = Inl err
         \<longrightarrow> upload_caught env st req part err)
    \<and> (import_error env = None \<and> mm_parse env (part_data part) = Inr md \<and> first_cover md \<noteq> None
         \<and> \<not> existsSync st (cover_dir env) \<and> mkdir_error env = Some err
         \<longrightarrow> upload_caught env st req part err)
    \<and> (import_error env = None \<and> mm_parse env (part_data part) = Inr md \<and> first_cover md \<noteq> None
         \<and> (existsSync st (cover_dir env) \<or> mkdir_error env = None) \<and> write_error env = Some err
         \<longrightarrow> upload_caught env st req part err)
    \<and> (import_error env = None \<and> mm_parse env (part_data part) = Inr md
         \<and> (first_cover md = None
              \<or> (existsSync st (cover_dir env) \<or> mkdir_error env = None) \<and> write_error env = None)
         \<and> insert_error env = Some err
         \<longrightarrow> upload_caught env st req part err)"
proof -
  define st1 where "st1 = st\<lparr>files := (files st)(song_file env (part_filename part) \<mapsto> part_data part)\<rparr>"
  define f where "f = \<lparr>originalname = part_filename part,
                          path = storage_path (now_filename env) (part_filename part)\<rparr>"
  define req1 where "req1 = \<lparr>req_file = Some f, req_body = text_fields req\<rparr>"
  have rf: "req_file req1 = Some f" by (simp add: req1_def)
  have st1: "songs st1 = songs st" by (simp add: st1_def)
  have ex: "existsSync st1 (cover_dir env) = existsSync st (cover_dir env)"
    by (simp add: st1_def existsSync_intake)
  have caught: "upload_caught env st req part e" if "upload_try env st1 req1 = (Some e, st2)"
    and "songs st2 = songs st" for e st2
    using that upload_caughtI [OF part, of env st e st2] by (simp add: st1_def req1_def f_def)
  have parse: "parseFile env st1 (path_resolve (app_dir env) (path f)) = mm_parse env (part_data part)"
    by (simp add: f_def resolve_storage_path st1_def parseFile_stored)
  have c1: "upload_caught env st req part err" if "import_error env = Some err"
    using caught [OF upload_try_import_throws [OF rf that] st1] .
  have c2: "upload_caught env st req part err"
    if "import_error env = None" "mm_parse env (part_data part) = Inl err"
    using caught [OF upload_try_parse_throws [OF rf that(1)] st1] parse that(2) by simp
  have c3: "upload_caught env st req part err"
    if imp: "import_error env = None" and md: "mm_parse env (part_data part) = Inr md"
      and c: "first_cover md \<noteq> None" and e: "\<not> existsSync st (cover_dir env)" "mkdir_error env = Some err"
  proof -
    from c obtain cover where cover: "first_cover md = Some cover" by auto
    have "upload_try env st1 req1 = (Some err, st1)"
      using upload_try_parsed [OF rf imp, of st1 md] parse md
        save_thumbnail_mkdir_throws [OF cover, of st1 env err] e ex
      by simp
    from caught [OF this st1] show ?thesis .
  qed
  have c4: "upload_caught env st req part err"
    if imp: "import_error env = None" and md: "mm_parse env (part_data part) = Inr md"
      and c: "first_cover md \<noteq> None"
      and e: "existsSync st (cover_dir env) \<or> mkdir_error env = None" "write_error env = Some err"
  proof -
    from c obtain cover where cover: "first_cover md = Some cover" by auto
    from e ex have e1: "existsSync st1 (cover_dir env) \<or> mkdir_error env = None" by simp
    have "upload_try env st1 req1 = (Some err, with_cover_dir env st1)"
      using upload_try_parsed [OF rf imp, of st1 md] parse md
        save_thumbnail_write_throws [OF cover e1 e(2)]
      by simp
    from caught [OF this] show ?thesis by (simp add: with_cover_dir_def st1)
  qed
  have c5: "upload_caught env st req part err"
    if imp: "import_error env = None" and md: "mm_parse env (part_data part) = Inr md"
      and c: "first_cover md = None
              \<or> (existsSync st (cover_dir env) \<or> mkdir_error env = None) \<and> write_error env = None"
      and e: "insert_error env = Some err"
  proof -
    obtain thumb st2 where save:
      "save_thumbnail env st1 md (path_parse_name (originalname f)) = (Inr thumb, st2)"
    proof (cases "first_cover md")
      case None
      from save_thumbnail_no_cover [OF this] that show ?thesis by blast
    next
      case (Some cover)
      with c ex have "existsSync st1 (cover_dir env) \<or> mkdir_error env = None" "write_error env = None"
        by auto
      from save_thumbnail_written [OF Some this] that show ?thesis by blast
    qed
    have s2: "songs st2 = songs st"
      using save_thumbnail_frame(1) [of env st1 md "path_parse_name (originalname f)"] save st1 by simp
    have "upload_try env st1 req1 = (Some err, st2)"
      using upload_try_parsed [OF rf imp, of st1 md] parse md save e by simp
    from caught [OF this s2] show ?thesis .
  qed
  from c1 c2 c3 c4 c5 show ?thesis by blast
qed

theorem upload_exception_caught_witness:
  "upload_caught (scenario_env\<lparr>import_error := Some (Error ''Cannot find package'')\<rparr>)
      scenario_state scenario_request scenario_part (Error ''Cannot find package'')
   \<and> upload_caught (scenario_env\<lparr>mm_parse := (\<lambda>data. Inl (Error ''Unsupported format''))\<rparr>)
      scenario_state scenario_request scenario_part (Error ''Unsupported format'')
   \<and> upload_caught (tagged_env\<lparr>mkdir_error := Some (Error ''EACCES: permission denied'')\<rparr>)
      scenario_state scenario_request scenario_part (Error ''EACCES: permission denied'')
   \<and> upload_caught (tagged_env\<lparr>write_error := Some (Error ''ENOSPC: no space left on device'')\<rparr>)
      scenario_state scenario_request scenario_part (Error ''ENOSPC: no space left on device'')
   \<and> upload_caught (tagged_env\<lparr>insert_error := Some (Error ''connection terminated'')\<rparr>)
      scenario_state scenario_request scenario_part (Error ''connection terminated'')
   \<and> fst (upload_song (scenario_env\<lparr>mm_parse := (\<lambda>data. Inl (Error ''Unsupported format''))\<rparr>)
           scenario_state scenario_request) =
       \<lparr>status = 500,
        body = JObject [(''error'', JString ''Upload failed''), (''details'', JString ''Unsupported format'')]\<rparr>"
proof -
  have part: "song_part scenario_request = Some scenario_part"
    by (simp add: example_defs)
  note T = upload_exception_caught [OF part]
  have cover: "first_cover tagged \<noteq> None" by (simp add: first_cover_def tagged_def)
  have dir: "\<not> existsSync scenario_state (cover_dir tagged_env)"
    by (simp add: existsSync_def cover_dir_def example_defs tagged_env_def path_resolve_def destination_def)
  have a: "upload_caught (scenario_env\<lparr>import_error := Some (Error ''Cannot find package'')\<rparr>)
      scenario_state scenario_request scenario_part (Error ''Cannot find package'')"
    using T [where env = "scenario_env\<lparr>import_error := Some (Error ''Cannot find package'')\<rparr>"
               and err = "Error ''Cannot find package''" and st = scenario_state]
    by simp
  have b: "upload_caught (scenario_env\<lparr>mm_parse := (\<lambda>data. Inl (Error ''Unsupported format''))\<rparr>)
      scenario_state scenario_request scenario_part (Error ''Unsupported format'')"
    using T [where env = "scenario_env\<lparr>mm_parse := (\<lambda>data. Inl (Error ''Unsupported format''))\<rparr>"
               and err = "Error ''Unsupported format''" and st = scenario_state]
    by (simp add: scenario_env_def)
  have c: "upload_caught (tagged_env\<lparr>mkdir_error := Some (Error ''EACCES: permission denied'')\<rparr>)
      scenario_state scenario_request scenario_part (Error ''EACCES: permission denied'')"
    using T [where env = "tagged_env\<lparr>mkdir_error := Some (Error ''EACCES: permission denied'')\<rparr>"
               and err = "Error ''EACCES: permission denied''" and st = scenario_state and md = tagged]
      cover dir
    by (simp add: tagged_env_def scenario_env_def cover_dir_def)
  have d: "upload_caught (tagged_env\<lparr>write_error := Some (Error ''ENOSPC: no space left on device'')\<rparr>)
      scenario_state scenario_request scenario_part (Error ''ENOSPC: no space left on device'')"
    using T [where env = "tagged_env\<lparr>write_error := Some (Error ''ENOSPC: no space left on device'')\<rparr>"
               and err = "Error ''ENOSPC: no space left on device''" and st = scenario_state and md = tagged]
      cover
    by (simp add: tagged_env_def scenario_env_def)
  have e: "upload_caught (tagged_env\<lparr>insert_error := Some (Error ''connection terminated'')\<rparr>)
      scenario_state scenario_request scenario_part (Error ''connection terminated'')"
    using T [where env = "tagged_env\<lparr>insert_error := Some (Error ''connection terminated'')\<rparr>"
               and err = "Error ''connection terminated''" and st = scenario_state and md = tagged]
    by (simp add: tagged_env_def scenario_env_def)
  from b have f: "fst (upload_song (scenario_env\<lparr>mm_parse := (\<lambda>data. Inl (Error ''Unsupported format''))\<rparr>)
           scenario_state scenario_request) =
       \<lparr>status = 500,
        body = JObject [(''error'', JString ''Upload failed''), (''details'', JString ''Unsupported format'')]\<rparr>"
    by (simp add: upload_caught_def upload_failure_def)
  from a b c d e f show ?thesis by (intro conjI)
qed

text \<open>
  Claim C4, as stated, fails: the stored path is not unique. Two uploads of \<^verbatim>\<open>track.mp3\<close>
  that read the same millisecond from the clock are stored at the same path; both rows
  reference it and the bytes of the first upload are gone.
\<close>

theorem upload_path_collision:
  "the (song_part scenario_request) \<noteq> the (song_part second_request)
   \<and> map songs_filepath
         (songs (uploads [(scenario_env, scenario_request), (scenario_env, second_request)] scenario_state)) =
       [Str ''uploads/songs/1700000000000-track.mp3'', Str ''uploads/songs/1700000000000-track.mp3'']
   \<and> files (uploads [(scenario_env, scenario_request), (scenario_env, second_request)] scenario_state)
         ''/srv/audix/backend/uploads/songs/1700000000000-track.mp3'' =
       Some [79, 103, 103, 83]"
  by (simp add: upload_defs dec_scenario example_defs second_request_def)

text \<open>
  Claim C4, amended. The bytes of an upload are stored before the handler, and so the
  extractor, runs: the extractor reads the stored bytes. The path is the timestamp, a dash
  and the original file name under \<^verbatim>\<open>uploads/songs\<close>. Whatever the later steps do, the file
  is on disk when the request ends. Two uploads on the same server have the same path
  exactly when their timestamps and their original file names are the same.
\<close>

theorem upload_stored_before_parsing:
  assumes part: "song_part req = Some part"
  shows "upload_song env st req =
           upload_handler env
             (st\<lparr>files := (files st)(song_file env (part_filename part) \<mapsto> part_data part)\<rparr>)
             \<lparr>req_file = Some \<lparr>originalname = part_filename part,
                                path = ''uploads/songs/'' @ dec (now_filename env) @ ''-'' @ part_filename part\<rparr>,
              req_body = text_fields req\<rparr>
       \<and> parseFile env
            (st\<lparr>files := (files st)(song_file env (part_filename part) \<mapsto> part_data part)\<rparr>)
            (path_resolve (app_dir env)
               (''uploads/songs/'' @ dec (now_filename env) @ ''-'' @ part_filename part)) =
          mm_parse env (part_data part)
       \<and> files (snd (upload_song env st req)) (song_file env (part_filename part)) = Some (part_data part)
       \<and> (\<forall>env' part'. app_dir env' = app_dir env \<longrightarrow>
             (song_file env' (part_filename part') = song_file env (part_filename part)
                \<longleftrightarrow> now_filename env' = now_filename env \<and> part_filename part' = part_filename part))"
proof -
  have p: "path_resolve (app_dir env)
             (''uploads/songs/'' @ dec (now_filename env) @ ''-'' @ part_filename part) =
           song_file env (part_filename part)"
    using resolve_storage_path [of env "part_filename part"] by (simp add: storage_path_eq)
  have a: "upload_song env st req =
           upload_handler env
             (st\<lparr>files := (files st)(song_file env (part_filename part) \<mapsto> part_data part)\<rparr>)
             \<lparr>req_file = Some \<lparr>originalname = part_filename part,
                                path = ''uploads/songs/'' @ dec (now_filename env) @ ''-'' @ part_filename part\<rparr>,
              req_body = text_fields req\<rparr>"
    unfolding upload_song_file [OF part] storage_path_eq ..
  have b: "parseFile env
            (st\<lparr>files := (files st)(song_file env (part_filename part) \<mapsto> part_data part)\<rparr>)
            (path_resolve (app_dir env)
               (''uploads/songs/'' @ dec (now_filename env) @ ''-'' @ part_filename part)) =
          mm_parse env (part_data part)"
    unfolding p by (rule parseFile_stored)
  note c = upload_song_keeps_song [OF part, of env st]
  have d: "\<forall>env' part'. app_dir env' = app_dir env \<longrightarrow>
             (song_file env' (part_filename part') = song_file env (part_filename part)
                \<longleftrightarrow> now_filename env' = now_filename env \<and> part_filename part' = part_filename part)"
    using song_file_inj by blast
  from a b c d show ?thesis by (intro conjI)
qed

theorem upload_stored_before_parsing_witness:
  "status (fst (upload_song (scenario_env\<lparr>mm_parse := (\<lambda>data. Inl (Error ''Unsupported format''))\<rparr>)
                  scenario_state scenario_request)) = 500
   \<and> files (snd (upload_song (scenario_env\<lparr>mm_parse := (\<lambda>data. Inl (Error ''Unsupported format''))\<rparr>)
                  scenario_state scenario_request))
        ''/srv/audix/backend/uploads/songs/1700000000000-track.mp3'' = Some [73, 68, 51]
   \<and> song_file (scenario_env\<lparr>now_filename := 1700000000001\<rparr>) ''track.mp3'' \<noteq>
       song_file scenario_env ''track.mp3''"
proof -
  let ?env = "scenario_env\<lparr>mm_parse := (\<lambda>data. Inl (Error ''Unsupported format''))\<rparr>"
  have part: "song_part scenario_request = Some scenario_part"
    by (simp add: example_defs)
  have name: "song_file ?env ''track.mp3'' =
      ''/srv/audix/backend/uploads/songs/1700000000000-track.mp3''"
    "part_filename scenario_part = ''track.mp3''" "part_data scenario_part = [73, 68, 51]"
    by (simp_all add: song_file_def example_defs dec_scenario)
  have failed: "status (fst (upload_song ?env scenario_state scenario_request)) = 500"
    by (simp add: upload_defs dec_scenario example_defs)
  note T = upload_stored_before_parsing [OF part, of ?env scenario_state]
  from T have stored: "files (snd (upload_song ?env scenario_state scenario_request))
        ''/srv/audix/backend/uploads/songs/1700000000000-track.mp3'' = Some [73, 68, 51]"
    unfolding name by blast
  from T have "\<forall>env' part'. app_dir env' = app_dir ?env \<longrightarrow>
             (song_file env' (part_filename part') = song_file ?env (part_filename scenario_part)
                \<longleftrightarrow> now_filename env' = now_filename ?env \<and> part_filename part' = part_filename scenario_part)"
    by blast
  from this [rule_format, of "scenario_env\<lparr>now_filename := 1700000000001\<rparr>" scenario_part]
  have other: "song_file (scenario_env\<lparr>now_filename := 1700000000001\<rparr>) ''track.mp3'' \<noteq>
       song_file scenario_env ''track.mp3''"
    by (simp add: name(2) scenario_env_def song_file_def)
  from failed stored other show ?thesis by (intro conjI)
qed

text \<open>
  Claim C5, as stated, fails: a request with the email of a stored user and no password
  has no password that verifies, and it is not answered 401. \<^verbatim>\<open>bcrypt.compare\<close> throws on
  the missing password, and the handler, which has no \<^verbatim>\<open>try\<close>, lets the exception out.
\<close>

theorem login_without_password_throws:
  "find_user played_state (body_email \<lparr>body_email = Some ''a@b.com'', body_password = None\<rparr>) =
     Some \<lparr>users_id = 7, users_email = ''a@b.com'', users_password = ''hash(pw123)''\<rparr>
   \<and> login example_login_env played_state \<lparr>body_email = Some ''a@b.com'', body_password = None\<rparr> =
       Inl (Error ''data and hash arguments required'')"
  by (simp add: login_def find_user_def played_state_def example_login_env_def Let_def)

text \<open>
  Claim C5, amended. When the query succeeds and no stored user has the email of the
  request, the response is 401 with the fixed body \<^verbatim>\<open>{error: "User not found"}\<close>; when a
  stored user has it and the request carries a password that does not verify against the
  stored hash, the response is 401 with the fixed body \<^verbatim>\<open>{error: "Invalid password"}\<close>.
  Neither body holds anything of a user.
\<close>

theorem login_rejected_401:
  assumes "select_error env = None"
  shows "(find_user st (body_email req) = None \<longrightarrow>
            login env st req =
              Inr \<lparr>status = 401, body = JObject [(''error'', JString ''User not found'')]\<rparr>)
       \<and> (find_user st (body_email req) = Some user \<and> body_password req = Some password
            \<and> \<not> bcrypt_compare env password (users_password user) \<longrightarrow>
            login env st req =
              Inr \<lparr>status = 401, body = JObject [(''error'', JString ''Invalid password'')]\<rparr>)"
proof (intro conjI impI)
  assume "find_user st (body_email req) = None"
  from filter_find_None [OF this [unfolded find_user_def]] assms
  show "login env st req = Inr \<lparr>status = 401, body = JObject [(''error'', JString ''User not found'')]\<rparr>"
    by (simp add: login_def)
next
  assume a: "find_user st (body_email req) = Some user \<and> body_password req = Some password
            \<and> \<not> bcrypt_compare env password (users_password user)"
  then obtain ys where "filter (\<lambda>u. body_email req = Some (users_email u)) (users st) = user # ys"
    using filter_find_Some [of _ "users st" user] by (auto simp: find_user_def)
  with a assms
  show "login env st req = Inr \<lparr>status = 401, body = JObject [(''error'', JString ''Invalid password'')]\<rparr>"
    by (simp add: login_def)
qed

theorem login_rejected_401_witness:
  "login example_login_env played_state \<lparr>body_email = Some ''x@y.com'', body_password = Some ''pw123''\<rparr> =
     Inr \<lparr>status = 401, body = JObject [(''error'', JString ''User not found'')]\<rparr>
   \<and> login example_login_env played_state \<lparr>body_email = Some ''a@b.com'', body_password = Some ''pw124''\<rparr> =
     Inr \<lparr>status = 401, body = JObject [(''error'', JString ''Invalid password'')]\<rparr>"
proof -
  have sel: "select_error example_login_env = None" by (simp add: example_login_env_def)
  have none: "find_user played_state (body_email \<lparr>body_email = Some ''x@y.com'', body_password = Some ''pw123''\<rparr>) = None"
    by (simp add: find_user_def played_state_def)
  have some: "find_user played_state (body_email \<lparr>body_email = Some ''a@b.com'', body_password = Some ''pw124''\<rparr>) =
      Some \<lparr>users_id = 7, users_email = ''a@b.com'', users_password = ''hash(pw123)''\<rparr>"
    by (simp add: find_user_def played_state_def)
  have wrong: "\<not> bcrypt_compare example_login_env ''pw124''
      (users_password \<lparr>users_id = 7, users_email = ''a@b.com'', users_password = ''hash(pw123)''\<rparr>)"
    by (simp add: example_login_env_def)
  from login_rejected_401 [OF sel, of played_state "\<lparr>body_email = Some ''x@y.com'', body_password = Some ''pw123''\<rparr>"] none
    login_rejected_401 [OF sel, of played_state "\<lparr>body_email = Some ''a@b.com'', body_password = Some ''pw124''\<rparr>"
       "\<lparr>users_id = 7, users_email = ''a@b.com'', users_password = ''hash(pw123)''\<rparr>" "''pw124''"] some wrong
  show ?thesis by simp
qed

text \<open>
  Claim C6. When the query succeeds, a stored user has the email of the request and the
  password verifies against that user's hash, the response is 200 and its body is
  \<^verbatim>\<open>{user: {id, email}}\<close> of that user, with no other key, so no password.
\<close>

theorem login_accepted_200:
  assumes "select_error env = None"
    and "find_user st (body_email req) = Some user"
    and "body_password req = Some password"
    and "bcrypt_compare env password (users_password user)"
  shows "\<exists>res. login env st req = Inr res
      \<and> status res = 200
      \<and> body res = JObject [(''user'', JObject [(''id'', JNumber (of_int (users_id user))),
                                                 (''email'', JString (users_email user))])]
      \<and> body_email req = Some (users_email user)
      \<and> json_keys (body res) = [''user'', ''id'', ''email'']
      \<and> ''password'' \<notin> set (json_keys (body res))"
proof -
  from assms(2) obtain ys where f: "filter (\<lambda>u. body_email req = Some (users_email u)) (users st) = user # ys"
    using filter_find_Some [of _ "users st" user] by (auto simp: find_user_def)
  then have "user \<in> set (filter (\<lambda>u. body_email req = Some (users_email u)) (users st))" by simp
  then have "body_email req = Some (users_email user)" by simp
  with f assms show ?thesis by (simp add: login_def)
qed

theorem login_accepted_200_witness:
  "login example_login_env played_state \<lparr>body_email = Some ''a@b.com'', body_password = Some ''pw123''\<rparr> =
     Inr \<lparr>status = 200,
          body = JObject [(''user'', JObject [(''id'', JNumber 7), (''email'', JString ''a@b.com'')])]\<rparr>"
proof -
  have sel: "select_error example_login_env = None" by (simp add: example_login_env_def)
  have some: "find_user played_state (body_email \<lparr>body_email = Some ''a@b.com'', body_password = Some ''pw123''\<rparr>) =
      Some \<lparr>users_id = 7, users_email = ''a@b.com'', users_password = ''hash(pw123)''\<rparr>"
    by (simp add: find_user_def played_state_def)
  have pw: "body_password \<lparr>body_email = Some ''a@b.com'', body_password = Some ''pw123''\<rparr> = Some ''pw123''"
    by simp
  have right: "bcrypt_compare example_login_env ''pw123''
      (users_password \<lparr>users_id = 7, users_email = ''a@b.com'', users_password = ''hash(pw123)''\<rparr>)"
    by (simp add: example_login_env_def)
  from login_accepted_200 [OF sel some pw right] obtain res where
    "login example_login_env played_state \<lparr>body_email = Some ''a@b.com'', body_password = Some ''pw123''\<rparr> = Inr res"
    "status res = 200"
    "body res = JObject [(''user'', JObject [(''id'', JNumber 7), (''email'', JString ''a@b.com'')])]"
    by auto
  then show ?thesis by (cases res) simp
qed

text \<open>
  Claim C7. The moods passed to the second query have no duplicates and are the moods of
  the plays the first query returns; these are at most three plays of the user, latest
  first, and no play of the user left out is later than one returned. The moods happy,
  sad, happy give happy, sad.
\<close>

theorem recommendation_moods_distinct_recent:
  "distinct (recommendation_moods st userId)
   \<and> set (recommendation_moods st userId) = (\<lambda>p. songs_mood (snd p)) ` set (recent_plays st userId)
   \<and> length (recent_plays st userId) = min 3 (length (user_plays st userId))
   \<and> set (recent_plays st userId) \<subseteq> set (user_plays st userId)
   \<and> sorted_wrt (\<lambda>p q. history_played_at (fst q) \<le> history_played_at (fst p)) (recent_plays st userId)
   \<and> (\<forall>p \<in> set (user_plays st userId) - set (recent_plays st userId).
        \<forall>q \<in> set (recent_plays st userId). history_played_at (fst p) \<le> history_played_at (fst q))
   \<and> spread_new_Set [Str ''happy'', Str ''sad'', Str ''happy''] = [Str ''happy'', Str ''sad'']
   \<and> (recent_error env = None \<and> result_error env = None \<longrightarrow>
        recommendations env st userId =
          Inr \<lparr>status = 200,
               body = JArray (map songs_json
                        (take 10 (random_order env
                           (filter (mood_matches (recommendation_moods st userId)) (songs st)))))\<rparr>)"
proof -
  define key where "key = (\<lambda>hs :: history_row \<times> songs_row. - history_played_at (fst hs))"
  define ordered where "ordered = sort_key key (user_plays st userId)"
  have recent: "recent_plays st userId = take 3 ordered"
    by (simp add: recent_plays_eq ordered_def key_def)
  have sorted: "sorted (map key ordered)"
    by (simp add: ordered_def)
  have split: "ordered = take 3 ordered @ drop 3 ordered" by simp
  have a: "distinct (recommendation_moods st userId)"
    by (simp add: recommendation_moods_def spread_new_Set_distinct)
  have b: "set (recommendation_moods st userId) = (\<lambda>p. songs_mood (snd p)) ` set (recent_plays st userId)"
    by (simp add: recommendation_moods_def spread_new_Set_set)
  have c: "length (recent_plays st userId) = min 3 (length (user_plays st userId))"
    by (simp add: recent ordered_def)
  have d: "set (recent_plays st userId) \<subseteq> set (user_plays st userId)"
    using set_take_subset [of 3 ordered] by (simp add: recent ordered_def)
  have "sorted (map key (take 3 ordered))"
    using sorted by (simp add: sorted_wrt_take flip: take_map)
  then have e: "sorted_wrt (\<lambda>p q. history_played_at (fst q) \<le> history_played_at (fst p)) (recent_plays st userId)"
    by (simp add: recent sorted_map key_def)
  have "sorted (map key (take 3 ordered) @ map key (drop 3 ordered))"
    using sorted by (simp flip: map_append)
  then have le: "key q \<le> key p" if "q \<in> set (take 3 ordered)" "p \<in> set (drop 3 ordered)" for p q
    using that by (auto simp: sorted_append)
  have f: "\<forall>p \<in> set (user_plays st userId) - set (recent_plays st userId).
        \<forall>q \<in> set (recent_plays st userId). history_played_at (fst p) \<le> history_played_at (fst q)"
  proof (intro ballI)
    fix p q
    assume p: "p \<in> set (user_plays st userId) - set (recent_plays st userId)"
      and q: "q \<in> set (recent_plays st userId)"
    from p have "p \<in> set ordered" "p \<notin> set (take 3 ordered)" by (simp_all add: ordered_def recent)
    then have "p \<in> set (drop 3 ordered)"
      using split by (metis Un_iff set_append)
    from le [OF _ this, of q] q show "history_played_at (fst p) \<le> history_played_at (fst q)"
      by (simp add: recent key_def)
  qed
  have g: "spread_new_Set [Str ''happy'', Str ''sad'', Str ''happy''] = [Str ''happy'', Str ''sad'']"
    by (simp add: spread_new_Set_def)
  have h: "recent_error env = None \<and> result_error env = None \<longrightarrow>
        recommendations env st userId =
          Inr \<lparr>status = 200,
               body = JArray (map songs_json
                        (take 10 (random_order env
                           (filter (mood_matches (recommendation_moods st userId)) (songs st)))))\<rparr>"
    by (simp add: recommendations_def)
  from a b c d e f g h show ?thesis by (intro conjI)
qed

theorem recommendation_moods_distinct_recent_witness:
  "map (\<lambda>p. songs_mood (snd p)) (recent_plays played_state (Some 7)) = [Str ''happy'', Str ''sad'', Str ''happy'']
   \<and> distinct (recommendation_moods played_state (Some 7))
   \<and> set (recommendation_moods played_state (Some 7)) = {Str ''happy'', Str ''sad''}
   \<and> recommendation_moods played_state (Some 7) = [Str ''happy'', Str ''sad'']
   \<and> list_all (\<lambda>q. 10 \<le> history_played_at (fst q)) (recent_plays played_state (Some 7))
   \<and> recommendations example_recommendations_env played_state (Some 7) =
       Inr \<lparr>status = 200,
            body = JArray [songs_json (example_song 2 ''sad''), songs_json (example_song 1 ''happy'')]\<rparr>"
proof -
  have moods: "map (\<lambda>p. songs_mood (snd p)) (recent_plays played_state (Some 7)) =
      [Str ''happy'', Str ''sad'', Str ''happy'']"
    by (simp add: played_recent example_song_def)
  have left_out: "(\<lparr>history_user_id = 7, history_song_id = 3, history_played_at = 10\<rparr>, example_song 3 ''calm'')
      \<in> set (user_plays played_state (Some 7)) - set (recent_plays played_state (Some 7))"
    by (simp add: played_all played_recent example_song_def)
  have eval: "recommendation_moods played_state (Some 7) = [Str ''happy'', Str ''sad'']"
    by (simp add: recommendation_moods_def moods spread_new_Set_def)
  from recommendation_moods_distinct_recent [of played_state "Some 7" example_recommendations_env]
  have d: "distinct (recommendation_moods played_state (Some 7))"
    and s: "set (recommendation_moods played_state (Some 7)) =
         (\<lambda>p. songs_mood (snd p)) ` set (recent_plays played_state (Some 7))"
    and f: "\<forall>p \<in> set (user_plays played_state (Some 7)) - set (recent_plays played_state (Some 7)).
        \<forall>q \<in> set (recent_plays played_state (Some 7)). history_played_at (fst p) \<le> history_played_at (fst q)"
    and r: "recent_error example_recommendations_env = None
          \<and> result_error example_recommendations_env = None \<longrightarrow>
        recommendations example_recommendations_env played_state (Some 7) =
          Inr \<lparr>status = 200,
               body = JArray (map songs_json
                        (take 10 (random_order example_recommendations_env
                           (filter (mood_matches (recommendation_moods played_state (Some 7)))
                              (songs played_state)))))\<rparr>"
    by blast+
  have matching: "filter (mood_matches (recommendation_moods played_state (Some 7))) (songs played_state) =
      [example_song 1 ''happy'', example_song 2 ''sad'']"
    unfolding eval by (simp add: played_state_def mood_matches_def example_song_def)
  from r have r': "recommendations example_recommendations_env played_state (Some 7) =
       Inr \<lparr>status = 200,
            body = JArray [songs_json (example_song 2 ''sad''), songs_json (example_song 1 ''happy'')]\<rparr>"
    by (simp add: matching example_recommendations_env_def)
  from s have s': "set (recommendation_moods played_state (Some 7)) = {Str ''happy'', Str ''sad''}"
    unfolding set_map [symmetric] moods by auto
  from f left_out
  have "\<forall>q \<in> set (recent_plays played_state (Some 7)).
      history_played_at (fst (\<lparr>history_user_id = 7, history_song_id = 3, history_played_at = 10\<rparr>,
                             example_song 3 ''calm'')) \<le> history_played_at (fst q)"
    by blast
  then have f': "list_all (\<lambda>q. 10 \<le> history_played_at (fst q)) (recent_plays played_state (Some 7))"
    by (simp add: list_all_iff)
  from moods d s' eval f' r' show ?thesis by (intro conjI)
qed

text \<open>
  Claim C8. After the top level has run, none of the three nested routes is registered.
  Every upload request, whatever its response, appends the three routes to those
  registered, so after \<open>n\<close> uploads each of the three is registered \<open>n\<close> times.
\<close>

theorem nested_routes_registered_per_upload:
  "(\<forall>r \<in> set nested_routes. r \<notin> set (routes (init_state dir)))
   \<and> routes (snd (upload_song env st req)) = routes st @ nested_routes
   \<and> (\<forall>r \<in> set nested_routes. count_list (routes (uploads ups (init_state dir))) r = length ups)"
proof -
  have a: "\<forall>r \<in> set nested_routes. r \<notin> set (routes (init_state dir))"
    by (simp add: nested_routes_def init_state_def)
  have "count_list (routes (init_state dir)) r = 0" if "r \<in> set nested_routes" for r
    using a that by (simp add: count_list_0_iff)
  then have "\<forall>r \<in> set nested_routes. count_list (routes (uploads ups (init_state dir))) r = length ups"
    by (simp add: uploads_routes_count)
  with a upload_song_routes show ?thesis by blast
qed

theorem nested_routes_registered_per_upload_witness:
  "(''GET'', ''/api/playlists'') \<notin> set (routes scenario_state)
   \<and> count_list (routes (uploads [(scenario_env, scenario_request), (scenario_env, no_file_request)]
                            scenario_state)) (''GET'', ''/api/playlists'') = 2
   \<and> routes (snd (upload_song scenario_env scenario_state no_file_request)) =
       [(''POST'', ''/api/auth/signup''), (''POST'', ''/api/auth/login''), (''POST'', ''/api/upload/song''),
        (''GET'', ''/api/playlists''), (''POST'', ''/api/song/play''), (''GET'', ''/api/user/recommendations'')]"
proof -
  have r: "(''GET'', ''/api/playlists'') \<in> set nested_routes" by (simp add: nested_routes_def)
  note T = nested_routes_registered_per_upload [of "''/srv/audix/backend''" scenario_env scenario_state
      no_file_request "[(scenario_env, scenario_request), (scenario_env, no_file_request)]"]
  from T r have a: "(''GET'', ''/api/playlists'') \<notin> set (routes scenario_state)"
    unfolding scenario_state_def by blast
  from T r have b: "count_list (routes (uploads [(scenario_env, scenario_request), (scenario_env, no_file_request)]
                            scenario_state)) (''GET'', ''/api/playlists'') = 2"
    unfolding scenario_state_def by fastforce
  from T have c: "routes (snd (upload_song scenario_env scenario_state no_file_request)) =
       [(''POST'', ''/api/auth/signup''), (''POST'', ''/api/auth/login''), (''POST'', ''/api/upload/song''),
        (''GET'', ''/api/playlists''), (''POST'', ''/api/song/play''), (''GET'', ''/api/user/recommendations'')]"
    by (simp add: scenario_state_def init_state_def nested_routes_def)
  from a b c show ?thesis by (intro conjI)
qed

text \<open>
  Claim C9. An upload request without a file part is answered with the 500 failure whose
  details are the message of the TypeError; the handler returns, no song row is written,
  and the disk is unchanged.
\<close>

theorem upload_without_file:
  assumes "song_part req = None"
  shows "upload_song env st req =
           (upload_failure (TypeError ''Cannot read properties of undefined (reading 'path')''),
            st\<lparr>routes := routes st @ nested_routes\<rparr>)
       \<and> status (fst (upload_song env st req)) = 500
       \<and> songs (snd (upload_song env st req)) = songs st
       \<and> files (snd (upload_song env st req)) = files st"
  using assms
  by (simp add: upload_song_def upload_single_def upload_handler_def upload_try_def upload_failure_def)

theorem upload_without_file_witness:
  "upload_song scenario_env scenario_state no_file_request =
     (\<lparr>status = 500,
       body = JObject [(''error'', JString ''Upload failed''),
                       (''details'', JString ''Cannot read properties of undefined (reading 'path')'')]\<rparr>,
      scenario_state\<lparr>routes := routes scenario_state @ nested_routes\<rparr>)
   \<and> songs (snd (upload_song scenario_env scenario_state no_file_request)) = []"
proof -
  have "song_part no_file_request = None" by (simp add: no_file_request_def)
  from upload_without_file [OF this, of scenario_env scenario_state]
  show ?thesis by (simp add: upload_failure_def scenario_state_def init_state_def)
qed

text \<open>
  Claim C10. An upload whose extractor reports a genre list with a first entry and more
  has the same response and final state as one whose extractor reports the first entry
  alone; an empty genre list gives the same response and final state as no genre list.
\<close>

theorem upload_genre_first_only:
  "upload_song (with_genre (Some (g # gs)) env) st req = upload_song (with_genre (Some [g]) env) st req
   \<and> upload_song (with_genre (Some []) env) st req = upload_song (with_genre None env) st req"
proof
  show "upload_song (with_genre (Some (g # gs)) env) st req = upload_song (with_genre (Some [g]) env) st req"
    by (rule upload_song_with_genre [where ?md0.0 = no_tags]) (simp add: embedded_genre_def)
  show "upload_song (with_genre (Some []) env) st req = upload_song (with_genre None env) st req"
    by (rule upload_song_with_genre [where ?md0.0 = no_tags]) (simp add: embedded_genre_def)
qed

theorem upload_genre_first_only_witness:
  "upload_song (with_genre (Some [''Jazz'', ''Modal'']) scenario_env) scenario_state scenario_request =
   upload_song (with_genre (Some [''Jazz'']) scenario_env) scenario_state scenario_request
   \<and> map songs_genre (songs (snd (upload_song (with_genre (Some [''Jazz'']) scenario_env)
                                      scenario_state scenario_request))) = [Str ''Jazz'']
   \<and> upload_song (with_genre (Some []) scenario_env) scenario_state scenario_request =
      upload_song (with_genre None scenario_env) scenario_state scenario_request
   \<and> map songs_genre (songs (snd (upload_song (with_genre None scenario_env)
                                      scenario_state scenario_request))) = [Str ''Unknown'']"
proof -
  note T = upload_genre_first_only [of "''Jazz''" "[''Modal'']" scenario_env scenario_state scenario_request]
  have a: "map songs_genre (songs (snd (upload_song (with_genre (Some [''Jazz'']) scenario_env)
                                      scenario_state scenario_request))) = [Str ''Jazz'']"
    by (simp add: upload_defs dec_scenario example_defs with_genre_def)
  have b: "map songs_genre (songs (snd (upload_song (with_genre None scenario_env)
                                      scenario_state scenario_request))) = [Str ''Unknown'']"
    by (simp add: upload_defs dec_scenario example_defs with_genre_def)
  from T a b show ?thesis by (intro conjI) blast+
qed

end
